theory Spec2Isabelle
  imports Complex_Main
begin

section \<open>Floating-point values\<close>

text \<open>
  The columns of the data frames hold IEEE-754 doubles. The model keeps the special
  values that the code relies on (the infinities and NaN) and takes the finite values
  as exact reals: rounding, overflow and the sign of a zero are not represented.
  Arithmetic on these values never raises (numpy semantics): a division by zero gives
  an infinity or NaN, and every comparison with NaN is false. Since a finite operation
  that overflows in doubles gives an infinity there and a finite value here, no general
  statement below concludes that a computed quantity is finite.
\<close>

datatype float64 = Fin real | PInf | NInf | NaN

fun fneg :: "float64 \<Rightarrow> float64" where
  "fneg (Fin x) = Fin (- x)"
| "fneg PInf = NInf"
| "fneg NInf = PInf"
| "fneg NaN = NaN"

fun fadd :: "float64 \<Rightarrow> float64 \<Rightarrow> float64" where
  "fadd (Fin x) (Fin y) = Fin (x + y)"
| "fadd (Fin x) PInf = PInf"
| "fadd (Fin x) NInf = NInf"
| "fadd PInf (Fin y) = PInf"
| "fadd PInf PInf = PInf"
| "fadd PInf NInf = NaN"
| "fadd NInf (Fin y) = NInf"
| "fadd NInf PInf = NaN"
| "fadd NInf NInf = NInf"
| "fadd NaN y = NaN"
| "fadd x NaN = NaN"

definition fsub :: "float64 \<Rightarrow> float64 \<Rightarrow> float64" where
  "fsub x y = fadd x (fneg y)"

text \<open>The infinity with the sign of a non-zero real.\<close>

definition inf_of :: "real \<Rightarrow> float64" where
  "inf_of x = (if x = 0 then NaN else if 0 < x then PInf else NInf)"

fun fmul :: "float64 \<Rightarrow> float64 \<Rightarrow> float64" where
  "fmul (Fin x) (Fin y) = Fin (x * y)"
| "fmul (Fin x) PInf = inf_of x"
| "fmul (Fin x) NInf = inf_of (- x)"
| "fmul PInf (Fin y) = inf_of y"
| "fmul NInf (Fin y) = inf_of (- y)"
| "fmul PInf PInf = PInf"
| "fmul PInf NInf = NInf"
| "fmul NInf PInf = NInf"
| "fmul NInf NInf = PInf"
| "fmul NaN y = NaN"
| "fmul x NaN = NaN"

text \<open>
  Division: a non-zero finite value over zero is an infinity, zero over zero and
  infinity over infinity are NaN, a finite value over an infinity is zero.
\<close>

fun fdiv :: "float64 \<Rightarrow> float64 \<Rightarrow> float64" where
  "fdiv (Fin x) (Fin y) = (if y = 0 then inf_of x else Fin (x / y))"
| "fdiv (Fin x) PInf = Fin 0"
| "fdiv (Fin x) NInf = Fin 0"
| "fdiv PInf (Fin y) = (if 0 \<le> y then PInf else NInf)"
| "fdiv NInf (Fin y) = (if 0 \<le> y then NInf else PInf)"
| "fdiv PInf PInf = NaN"
| "fdiv PInf NInf = NaN"
| "fdiv NInf PInf = NaN"
| "fdiv NInf NInf = NaN"
| "fdiv NaN y = NaN"
| "fdiv x NaN = NaN"

fun flt :: "float64 \<Rightarrow> float64 \<Rightarrow> bool" where
  "flt (Fin x) (Fin y) = (x < y)"
| "flt (Fin x) PInf = True"
| "flt NInf (Fin y) = True"
| "flt NInf PInf = True"
| "flt x y = False"

definition fgt :: "float64 \<Rightarrow> float64 \<Rightarrow> bool" where
  "fgt x y = flt y x"

fun feq :: "float64 \<Rightarrow> float64 \<Rightarrow> bool" where
  "feq NaN y = False"
| "feq x NaN = False"
| "feq x y = (x = y)"

definition fle :: "float64 \<Rightarrow> float64 \<Rightarrow> bool" where
  "fle x y = (flt x y \<or> feq x y)"

definition fge :: "float64 \<Rightarrow> float64 \<Rightarrow> bool" where
  "fge x y = fle y x"

definition fne :: "float64 \<Rightarrow> float64 \<Rightarrow> bool" where
  "fne x y = (\<not> feq x y)"

definition isnan :: "float64 \<Rightarrow> bool" where
  "isnan x = (x = NaN)"

section \<open>Errors\<close>

datatype error = ZeroDivisionError | ValueError | KeyError

section \<open>Series operations of the data-frame library\<close>

text \<open>
  A series is the list of its values in index order. The library operations used by
  the indicators are modelled by what they compute on such a list.
\<close>

text \<open>\<open>series.diff()\<close>: the first element is NaN, the others the difference to the
  previous element.\<close>

fun diff_from :: "float64 \<Rightarrow> float64 list \<Rightarrow> float64 list" where
  "diff_from p [] = []"
| "diff_from p (x # xs) = fsub x p # diff_from x xs"

definition diff :: "float64 list \<Rightarrow> float64 list" where
  "diff xs = diff_from NaN xs"

text \<open>\<open>clip(lower=0)\<close> and \<open>clip(upper=0)\<close>: NaN stays NaN.\<close>

definition clip_lower0 :: "float64 \<Rightarrow> float64" where
  "clip_lower0 x = (if flt x (Fin 0) then Fin 0 else x)"

definition clip_upper0 :: "float64 \<Rightarrow> float64" where
  "clip_upper0 x = (if fgt x (Fin 0) then Fin 0 else x)"

text \<open>\<open>series.shift(1)\<close>: every value moves one place down, the first becomes NaN and
  the last is dropped.\<close>

definition shift1 :: "float64 list \<Rightarrow> float64 list" where
  "shift1 xs = (if xs = [] then [] else NaN # butlast xs)"

text \<open>
  Before a rolling or an exponentially weighted computation the library replaces every
  infinite value of the series by NaN.
\<close>

definition inf_to_nan :: "float64 \<Rightarrow> float64" where
  "inf_to_nan x = (case x of PInf \<Rightarrow> NaN | NInf \<Rightarrow> NaN | _ \<Rightarrow> x)"

definition prep_values :: "float64 list \<Rightarrow> float64 list" where
  "prep_values xs = map inf_to_nan xs"

text \<open>
  \<open>series.rolling(window=w, min_periods=w).mean()\<close>: at index \<open>i\<close> the mean of the
  \<open>w\<close> values ending at \<open>i\<close>, NaN while fewer than \<open>w\<close> values are available, when
  one of them is NaN or infinite, and when the window is empty.
\<close>

definition window_at :: "float64 list \<Rightarrow> nat \<Rightarrow> nat \<Rightarrow> float64 list" where
  "window_at xs w i = take w (drop (Suc i - w) xs)"

definition fsum :: "float64 list \<Rightarrow> float64" where
  "fsum xs = foldl fadd (Fin 0) xs"

definition rolling_mean_at :: "float64 list \<Rightarrow> nat \<Rightarrow> nat \<Rightarrow> float64" where
  "rolling_mean_at xs w i =
     (if Suc i < w \<or> w = 0 \<or> list_ex isnan (window_at xs w i) then NaN
      else fdiv (fsum (window_at xs w i)) (Fin (real w)))"

definition rolling_mean :: "float64 list \<Rightarrow> nat \<Rightarrow> float64 list" where
  "rolling_mean xs w = map (rolling_mean_at (prep_values xs) w) [0..<length xs]"

text \<open>
  \<open>series.ewm(alpha=a, min_periods=m).mean()\<close> with the defaults \<open>adjust=True\<close> and
  \<open>ignore_na=False\<close>: the library's loop, which carries the running weighted mean,
  the number of observations seen and the weight of the old mean. A NaN input (and so
  an infinite one) is no observation; the output is NaN until \<open>m\<close> observations have
  been seen.
\<close>

fun ewm_loop ::
  "float64 \<Rightarrow> nat \<Rightarrow> float64 \<Rightarrow> nat \<Rightarrow> float64 \<Rightarrow> float64 list \<Rightarrow> float64 list" where
  "ewm_loop old_wt_factor minp weighted nobs old_wt [] = []"
| "ewm_loop old_wt_factor minp weighted nobs old_wt (cur # rest) =
     (let is_observation = feq cur cur;
          nobs' = (if is_observation then Suc nobs else nobs);
          old_wt1 = (if feq weighted weighted then fmul old_wt old_wt_factor else old_wt);
          weighted' =
            (if feq weighted weighted then
               (if is_observation \<and> fne weighted cur
                then fdiv (fadd (fmul old_wt1 weighted) (fmul (Fin 1) cur))
                          (fadd old_wt1 (Fin 1))
                else weighted)
             else if is_observation then cur else weighted);
          old_wt' =
            (if feq weighted weighted \<and> is_observation then fadd old_wt1 (Fin 1)
             else old_wt1)
      in (if minp \<le> nobs' then weighted' else NaN)
         # ewm_loop old_wt_factor minp weighted' nobs' old_wt' rest)"

definition ewm_mean :: "real \<Rightarrow> nat \<Rightarrow> float64 list \<Rightarrow> float64 list" where
  "ewm_mean alpha minp vals =
     (case prep_values vals of
        [] \<Rightarrow> []
      | v # rest \<Rightarrow>
          (let nobs = (if feq v v then 1 else 0)
           in (if max minp 1 \<le> nobs then v else NaN)
              # ewm_loop (Fin (1 - alpha)) (max minp 1) v nobs (Fin 1) rest))"

section \<open>Indicators (indicators.py)\<close>

text \<open>\<open>calculate_sma\<close>: the library refuses a negative window.\<close>

definition calculate_sma :: "float64 list \<Rightarrow> int \<Rightarrow> error + float64 list" where
  "calculate_sma series window =
     (if window < 0 then Inl ValueError
      else Inr (rolling_mean series (nat window)))"

text \<open>
  \<open>calculate_rsi\<close>. \<open>1 / period\<close> raises ZeroDivisionError for \<open>period = 0\<close>, and the
  library refuses a smoothing factor outside \<open>(0, 1]\<close>, which a negative period gives.
  The intermediate series are kept as functions of their own.
\<close>

definition rsi_gain :: "float64 list \<Rightarrow> float64 list" where
  "rsi_gain series = map clip_lower0 (diff series)"

definition rsi_loss :: "float64 list \<Rightarrow> float64 list" where
  "rsi_loss series = map (\<lambda>d. fneg (clip_upper0 d)) (diff series)"

definition rsi_avg_gain :: "float64 list \<Rightarrow> nat \<Rightarrow> float64 list" where
  "rsi_avg_gain series period = ewm_mean (1 / real period) period (rsi_gain series)"

definition rsi_avg_loss :: "float64 list \<Rightarrow> nat \<Rightarrow> float64 list" where
  "rsi_avg_loss series period = ewm_mean (1 / real period) period (rsi_loss series)"

definition rsi_of :: "float64 \<Rightarrow> float64 \<Rightarrow> float64" where
  "rsi_of avg_gain avg_loss =
     (let rs = fdiv avg_gain avg_loss
      in fsub (Fin 100) (fdiv (Fin 100) (fadd (Fin 1) rs)))"

definition calculate_rsi :: "float64 list \<Rightarrow> int \<Rightarrow> error + float64 list" where
  "calculate_rsi series period =
     (if period = 0 then Inl ZeroDivisionError
      else if period < 0 then Inl ValueError
      else Inr (map2 rsi_of (rsi_avg_gain series (nat period))
                            (rsi_avg_loss series (nat period))))"

section \<open>Signal generation (strategy.py)\<close>

text \<open>
  The rows of a data frame are listed in index order. A row of the input has the index
  (the trading date, as a day number) and the columns \<open>Close\<close> and \<open>Volume\<close>;
  \<open>generate_signals\<close> works on a copy and adds the indicator columns and \<open>signal\<close>.
\<close>

record bar =
  date :: int
  Close :: float64
  Volume :: float64

record sbar = bar +
  rsi :: float64
  sma_short :: float64
  sma_long :: float64
  ma_diff :: float64
  ma_diff_prev :: float64
  signal :: int

text \<open>
  A frame as a caller holds it: the frame without any column, which is what
  \<open>pd.DataFrame()\<close> builds and what the data source returns for a failed download (it
  has no row either); a frame with the input columns; or a frame that has the indicator
  and signal columns as well.
\<close>

datatype frame = NoColumns | Bars "bar list" | SignaledBars "sbar list"

text \<open>The rows of a frame with their input columns, if the frame has these columns.\<close>

definition input_rows :: "frame \<Rightarrow> bar list option" where
  "input_rows f =
     (case f of
        NoColumns \<Rightarrow> None
      | Bars df \<Rightarrow> Some df
      | SignaledBars sdf \<Rightarrow> Some (map bar.truncate sdf))"

text \<open>
  Assigning a series to a column aligns it with the frame's index: the frame keeps its
  rows, and a row without a value in the series gets NaN.
\<close>

definition col_at :: "float64 list \<Rightarrow> nat \<Rightarrow> float64" where
  "col_at xs i = (if i < length xs then xs ! i else NaN)"

definition buy_condition :: "float64 \<Rightarrow> float64 \<Rightarrow> bool" where
  "buy_condition rsi_val ma_diff_val = (flt rsi_val (Fin 30) \<and> fgt ma_diff_val (Fin 0))"

definition signaled_row ::
  "bar list \<Rightarrow> float64 list \<Rightarrow> float64 list \<Rightarrow> float64 list \<Rightarrow> nat \<Rightarrow> sbar" where
  "signaled_row df rsi_col sma_short_col sma_long_col i =
     (let ma_diff_col = map (\<lambda>j. fsub (col_at sma_short_col j) (col_at sma_long_col j))
                            [0..<length df];
          ma_diff_prev_col = shift1 ma_diff_col
      in \<lparr> date = date (df ! i), Close = Close (df ! i), Volume = Volume (df ! i),
           rsi = col_at rsi_col i,
           sma_short = col_at sma_short_col i,
           sma_long = col_at sma_long_col i,
           ma_diff = col_at ma_diff_col i,
           ma_diff_prev = col_at ma_diff_prev_col i,
           signal = (if buy_condition (col_at rsi_col i) (col_at ma_diff_col i)
                     then 1 else 0) \<rparr>)"

text \<open>
  \<open>generate_signals\<close>. The first thing evaluated after the copy is \<open>df["Close"]\<close>, which
  raises KeyError on a frame without that column. An indicator column that the frame
  already has is overwritten.
\<close>

definition generate_signals :: "frame \<Rightarrow> int \<Rightarrow> int \<Rightarrow> int \<Rightarrow> error + sbar list" where
  "generate_signals frame_in rsi_period short_window long_window =
     (case input_rows frame_in of
        None \<Rightarrow> Inl KeyError
      | Some df \<Rightarrow>
     (case calculate_rsi (map Close df) rsi_period of
        Inl e \<Rightarrow> Inl e
      | Inr rsi_col \<Rightarrow>
     (case calculate_sma (map Close df) short_window of
        Inl e \<Rightarrow> Inl e
      | Inr sma_short_col \<Rightarrow>
     (case calculate_sma (map Close df) long_window of
        Inl e \<Rightarrow> Inl e
      | Inr sma_long_col \<Rightarrow>
          Inr (map (signaled_row df rsi_col sma_short_col sma_long_col)
                   [0..<length df])))))"

section \<open>Backtest (strategy.py)\<close>

text \<open>
  A trade as the loop appends it to \<open>trades\<close>. Its keys carry the prefix \<open>tr_\<close>, the
  unprefixed names being those of the loop's variables. \<open>entry_date\<close> is \<open>None\<close> until
  the first entry.
\<close>

record trade =
  tr_entry_date :: "int option"
  tr_exit_date :: int
  tr_entry_price :: float64
  tr_exit_price :: float64
  tr_shares :: float64
  tr_pnl :: float64
  tr_pnl_pct :: float64

text \<open>The local variables of \<open>backtest_signals\<close> that the loop updates.\<close>

record bt_state =
  trades :: "trade list"
  in_position :: bool
  entry_price :: float64
  entry_date :: "int option"
  shares :: float64
  capital :: float64

definition bt_init :: "float64 \<Rightarrow> bt_state" where
  "bt_init initial_capital =
     \<lparr> trades = [], in_position = False, entry_price = Fin 0, entry_date = None,
       shares = Fin 0, capital = initial_capital \<rparr>"

text \<open>
  One pass of the loop body for index \<open>i\<close>. The entry branch ends with \<open>continue\<close>,
  so the exit test is not reached on the bar that enters.
\<close>

definition bt_step :: "sbar list \<Rightarrow> float64 \<Rightarrow> nat \<Rightarrow> bt_state \<Rightarrow> bt_state" where
  "bt_step df rsi_exit i s =
     (let row = df ! i; price = Close row in
      if \<not> in_position s \<and> signal row = 1 then
        s\<lparr> entry_price := price, entry_date := Some (date row),
           shares := fdiv (capital s) price, in_position := True \<rparr>
      else if in_position s then
        (let cross_down = (fge (ma_diff_prev row) (Fin 0) \<and> flt (ma_diff row) (Fin 0));
             overbought = fgt (rsi row) rsi_exit
         in if cross_down \<or> overbought \<or> i = length df - 1 then
              (let pnl = fmul (fsub price (entry_price s)) (shares s);
                   pnl_pct = fdiv pnl (fmul (entry_price s) (shares s))
               in s\<lparr> capital := fadd (capital s) pnl,
                     trades := trades s @
                       [\<lparr> tr_entry_date = entry_date s, tr_exit_date = date row,
                          tr_entry_price = entry_price s, tr_exit_price = price,
                          tr_shares = shares s, tr_pnl = pnl, tr_pnl_pct = pnl_pct \<rparr>],
                     in_position := False, entry_price := Fin 0, shares := Fin 0 \<rparr>)
            else s)
      else s)"

text \<open>\<open>for i in range(len(df))\<close>, from index 0, and the state after the first \<open>k\<close> bars.\<close>

definition bt_upto :: "sbar list \<Rightarrow> float64 \<Rightarrow> float64 \<Rightarrow> nat \<Rightarrow> bt_state" where
  "bt_upto df initial_capital rsi_exit k =
     fold (bt_step df rsi_exit) [0..<k] (bt_init initial_capital)"

definition bt_loop :: "sbar list \<Rightarrow> float64 \<Rightarrow> float64 \<Rightarrow> bt_state" where
  "bt_loop df initial_capital rsi_exit = bt_upto df initial_capital rsi_exit (length df)"

record summary =
  total_trades :: nat
  wins :: nat
  losses :: nat
  win_rate :: float64
  cumulative_return_pct :: float64

text \<open>The ledger as returned: \<open>pnl_pct\<close> is multiplied by 100.\<close>

definition scale_pnl_pct :: "trade \<Rightarrow> trade" where
  "scale_pnl_pct t = t\<lparr> tr_pnl_pct := fmul (tr_pnl_pct t) (Fin 100) \<rparr>"

definition is_win :: "trade \<Rightarrow> bool" where
  "is_win t = fgt (tr_pnl t) (Fin 0)"

definition is_loss :: "trade \<Rightarrow> bool" where
  "is_loss t = fle (tr_pnl t) (Fin 0)"

definition summarize :: "trade list \<Rightarrow> float64 \<Rightarrow> float64 \<Rightarrow> summary" where
  "summarize trade_df final_capital initial_capital =
     \<lparr> total_trades = length trade_df,
       wins = (if trade_df \<noteq> [] then length (filter is_win trade_df) else 0),
       losses = (if trade_df \<noteq> [] then length (filter is_loss trade_df) else 0),
       win_rate = (if trade_df \<noteq> []
                   then Fin (real (length (filter is_win trade_df)) / real (length trade_df))
                   else Fin 0),
       cumulative_return_pct =
         fmul (fsub (fdiv final_capital initial_capital) (Fin 1)) (Fin 100) \<rparr>"

text \<open>
  \<open>backtest_signals\<close>. \<open>capital\<close> starts as the Python float \<open>initial_capital\<close> and
  becomes a numpy value with the first \<open>capital += pnl\<close>; so in a run without a trade
  \<open>capital / initial_capital\<close> is a division of Python floats, which raises
  ZeroDivisionError for a zero divisor. Every other division has a numpy operand (a
  value read from a row, or computed from one) and follows numpy: a zero divisor gives
  an infinity or NaN and a warning, no exception.
\<close>

definition backtest_signals ::
  "sbar list \<Rightarrow> float64 \<Rightarrow> float64 \<Rightarrow> error + (trade list \<times> summary)" where
  "backtest_signals df initial_capital rsi_exit =
     (let s = bt_loop df initial_capital rsi_exit;
          trade_df = map scale_pnl_pct (trades s)
      in if trades s = [] \<and> initial_capital = Fin 0 then Inl ZeroDivisionError
         else Inr (trade_df, summarize trade_df (capital s) initial_capital))"

section \<open>Entries and the trades that close them\<close>

text \<open>
  Index \<open>i\<close> is an entry of a run when the loop reaches bar \<open>i\<close> without a position
  and the bar carries a buy signal. A trade closes the entry at \<open>i\<close> when it records
  that bar's date and price as its entry and the date and price of a later bar as its
  exit.
\<close>

definition is_entry :: "sbar list \<Rightarrow> float64 \<Rightarrow> float64 \<Rightarrow> nat \<Rightarrow> bool" where
  "is_entry df initial_capital rsi_exit i =
     (\<not> in_position (bt_upto df initial_capital rsi_exit i) \<and> signal (df ! i) = 1)"

definition entries_before :: "sbar list \<Rightarrow> float64 \<Rightarrow> float64 \<Rightarrow> nat \<Rightarrow> nat list" where
  "entries_before df initial_capital rsi_exit k =
     filter (is_entry df initial_capital rsi_exit) [0..<k]"

definition closes :: "sbar list \<Rightarrow> trade \<Rightarrow> nat \<Rightarrow> bool" where
  "closes df t i =
     (tr_entry_date t = Some (date (df ! i)) \<and> tr_entry_price t = Close (df ! i) \<and>
      (\<exists>j \<in> {i<..<length df}.
         tr_exit_date t = date (df ! j) \<and> tr_exit_price t = Close (df ! j)))"

text \<open>The capital held when the \<open>k\<close>-th trade of a ledger was entered: the initial
  capital with the profit of every earlier trade added, in order.\<close>

definition capital_before :: "float64 \<Rightarrow> trade list \<Rightarrow> nat \<Rightarrow> float64" where
  "capital_before initial_capital ts k = foldl fadd initial_capital (map tr_pnl (take k ts))"

section \<open>The state machine of the specification\<close>

text \<open>
  The single-position machine as the specification words it: a position slot that is
  flat or entered, the deployable capital and the ledger. A bar is processed together
  with the flag saying that it is the last bar of the sequence.
\<close>

datatype spec_position = Flat | Entered float64 int float64

record spec_state =
  position :: spec_position
  spec_capital :: float64
  ledger :: "trade list"

definition spec_exit_trigger :: "float64 \<Rightarrow> bool \<Rightarrow> sbar \<Rightarrow> bool" where
  "spec_exit_trigger rsi_exit is_last b =
     ((fge (ma_diff_prev b) (Fin 0) \<and> flt (ma_diff b) (Fin 0))
      \<or> fgt (rsi b) rsi_exit
      \<or> is_last)"

definition spec_trade :: "float64 \<Rightarrow> int \<Rightarrow> float64 \<Rightarrow> sbar \<Rightarrow> trade" where
  "spec_trade e_price e_date n_shares b =
     (let pnl = fmul (fsub (Close b) e_price) n_shares
      in \<lparr> tr_entry_date = Some e_date, tr_exit_date = date b,
           tr_entry_price = e_price, tr_exit_price = Close b,
           tr_shares = n_shares, tr_pnl = pnl,
           tr_pnl_pct = fdiv pnl (fmul e_price n_shares) \<rparr>)"

definition spec_step :: "float64 \<Rightarrow> bool \<Rightarrow> sbar \<Rightarrow> spec_state \<Rightarrow> spec_state" where
  "spec_step rsi_exit is_last b st =
     (case position st of
        Flat \<Rightarrow>
          (if signal b = 1
           then st\<lparr> position :=
                      Entered (Close b) (date b) (fdiv (spec_capital st) (Close b)) \<rparr>
           else st)
      | Entered e_price e_date n_shares \<Rightarrow>
          (if spec_exit_trigger rsi_exit is_last b
           then \<lparr> position = Flat,
                  spec_capital =
                    fadd (spec_capital st) (tr_pnl (spec_trade e_price e_date n_shares b)),
                  ledger = ledger st @ [spec_trade e_price e_date n_shares b] \<rparr>
           else st))"

fun spec_run :: "float64 \<Rightarrow> sbar list \<Rightarrow> spec_state \<Rightarrow> spec_state" where
  "spec_run rsi_exit [] st = st"
| "spec_run rsi_exit (b # bs) st = spec_run rsi_exit bs (spec_step rsi_exit (bs = []) b st)"

definition spec_init :: "float64 \<Rightarrow> spec_state" where
  "spec_init initial_capital =
     \<lparr> position = Flat, spec_capital = initial_capital, ledger = [] \<rparr>"

text \<open>When a state of the loop and a state of the machine are the same state.\<close>

definition corresponds :: "bt_state \<Rightarrow> spec_state \<Rightarrow> bool" where
  "corresponds s st =
     (trades s = ledger st \<and> capital s = spec_capital st \<and>
      (case position st of
         Flat \<Rightarrow> \<not> in_position s
       | Entered e_price e_date n_shares \<Rightarrow>
           in_position s \<and> entry_price s = e_price \<and> entry_date s = Some e_date
           \<and> shares s = n_shares))"

section \<open>Frames as objects\<close>

text \<open>
  The functions receive a data frame as an object that the caller goes on holding. A
  store maps the identity of a frame to the frame and knows the next free identity.
\<close>

record store =
  frames :: "nat \<Rightarrow> frame"
  next_id :: nat

text \<open>\<open>df.copy()\<close>: a new frame with the same rows.\<close>

definition copy_frame :: "store \<Rightarrow> nat \<Rightarrow> store \<times> nat" where
  "copy_frame st r =
     (st\<lparr> frames := (frames st)(next_id st := frames st r), next_id := Suc (next_id st) \<rparr>,
      next_id st)"

text \<open>
  \<open>generate_signals\<close> on a frame object: \<open>df = df.copy()\<close> makes the local name denote
  a copy, the columns are assigned to that copy, and the copy is returned.
\<close>

definition generate_signals_obj ::
  "store \<Rightarrow> nat \<Rightarrow> int \<Rightarrow> int \<Rightarrow> int \<Rightarrow> store \<times> (error + nat)" where
  "generate_signals_obj st r rsi_period short_window long_window =
     (let (st1, d) = copy_frame st r
      in case generate_signals (frames st1 d) rsi_period short_window long_window of
           Inl e \<Rightarrow> (st1, Inl e)
         | Inr out \<Rightarrow> (st1\<lparr> frames := (frames st1)(d := SignaledBars out) \<rparr>, Inr d))"

text \<open>
  \<open>backtest_signals\<close> on a frame object: the frame is only read, and the variables of
  the loop are created by the call. Reading \<open>signal\<close> from a row of a frame without
  that column raises KeyError; a frame without rows has no such row.
\<close>

definition backtest_signals_obj ::
  "store \<Rightarrow> nat \<Rightarrow> float64 \<Rightarrow> float64 \<Rightarrow> store \<times> (error + (trade list \<times> summary))" where
  "backtest_signals_obj st r initial_capital rsi_exit =
     (st, case frames st r of
            SignaledBars sdf \<Rightarrow> backtest_signals sdf initial_capital rsi_exit
          | Bars df \<Rightarrow>
              (if df = [] then backtest_signals [] initial_capital rsi_exit
               else Inl KeyError)
          | NoColumns \<Rightarrow> backtest_signals [] initial_capital rsi_exit)"

text \<open>What a returned frame identity denotes: the rows of the frame.\<close>

definition returned_frame :: "store \<times> (error + nat) \<Rightarrow> error + frame" where
  "returned_frame x = (case snd x of Inl e \<Rightarrow> Inl e | Inr d \<Rightarrow> Inr (frames (fst x) d))"

section \<open>Invariants of the loop\<close>

text \<open>
  The ledger invariant after \<open>k\<close> bars: the trades recorded so far close the entries
  seen so far, one each and in order, except for the entry of a position that is still
  open; that entry is on the last bar if the run is over.
\<close>

definition ledger_inv :: "sbar list \<Rightarrow> float64 \<Rightarrow> float64 \<Rightarrow> nat \<Rightarrow> bool" where
  "ledger_inv df c r k =
     (let s = bt_upto df c r k in
      if in_position s then
        (\<exists>i < k. entries_before df c r k = entries_before df c r i @ [i] \<and>
            list_all2 (closes df) (trades s) (entries_before df c r i) \<and>
            entry_date s = Some (date (df ! i)) \<and> entry_price s = Close (df ! i) \<and>
            (k = length df \<longrightarrow> Suc i = k))
      else list_all2 (closes df) (trades s) (entries_before df c r k))"

text \<open>
  The sizing invariant: the capital is the initial capital plus the profits of the
  ledger, every recorded trade holds the capital of its entry time divided by its entry
  price, and so does an open position.
\<close>

definition sizing_inv :: "sbar list \<Rightarrow> float64 \<Rightarrow> float64 \<Rightarrow> nat \<Rightarrow> bool" where
  "sizing_inv df c r k =
     (let s = bt_upto df c r k in
      capital s = capital_before c (trades s) (length (trades s)) \<and>
      (\<forall>j < length (trades s).
          tr_shares (trades s ! j) =
            fdiv (capital_before c (trades s) j) (tr_entry_price (trades s ! j))) \<and>
      (in_position s \<longrightarrow> shares s = fdiv (capital s) (entry_price s)))"

section \<open>Sample frames\<close>

text \<open>
  Small frames on which the functions are evaluated. The signaled frames are the
  output of \<open>generate_signals\<close> on the bars above them, for the parameters stated with
  each.
\<close>

text \<open>
  A rise, a dip and a rise: with the parameters 1, 1, 3 the dip on the third bar gives
  a buy signal and the position is closed on the fourth, the last, bar.
\<close>

definition demo_bars :: "bar list" where
  "demo_bars = [\<lparr>date = 1, Close = Fin 10, Volume = Fin 500\<rparr>,
                \<lparr>date = 2, Close = Fin 20, Volume = Fin 500\<rparr>,
                \<lparr>date = 3, Close = Fin 19, Volume = Fin 500\<rparr>,
                \<lparr>date = 4, Close = Fin 25, Volume = Fin 500\<rparr>]"

definition demo_signaled :: "sbar list" where
  "demo_signaled =
     [\<lparr>date = 1, Close = Fin 10, Volume = Fin 500, rsi = NaN,
         sma_short = Fin 10, sma_long = NaN, ma_diff = NaN,
         ma_diff_prev = NaN, signal = 0\<rparr>,
      \<lparr>date = 2, Close = Fin 20, Volume = Fin 500, rsi = Fin 100,
         sma_short = Fin 20, sma_long = NaN, ma_diff = NaN,
         ma_diff_prev = NaN, signal = 0\<rparr>,
      \<lparr>date = 3, Close = Fin 19, Volume = Fin 500, rsi = Fin 0,
         sma_short = Fin 19, sma_long = Fin (49 / 3), ma_diff = Fin (8 / 3),
         ma_diff_prev = NaN, signal = 1\<rparr>,
      \<lparr>date = 4, Close = Fin 25, Volume = Fin 500, rsi = Fin 100,
         sma_short = Fin 25, sma_long = Fin (64 / 3),
         ma_diff = Fin (11 / 3), ma_diff_prev = Fin (8 / 3), signal = 0\<rparr>]"

definition demo_trade :: trade where
  "demo_trade = \<lparr>tr_entry_date = Some 3, tr_exit_date = 4, tr_entry_price = Fin 19,
          tr_exit_price = Fin 25, tr_shares = Fin (100000 / 19),
          tr_pnl = Fin (600000 / 19), tr_pnl_pct = Fin (600 / 19)\<rparr>"

definition demo_summary :: summary where
  "demo_summary = \<lparr>total_trades = 1, wins = 1, losses = 0, win_rate = Fin 1,
                     cumulative_return_pct = Fin (600 / 19)\<rparr>"

text \<open>
  The same bars without the last one: the buy signal falls on the last bar.
\<close>

definition dip_bars :: "bar list" where
  "dip_bars = [\<lparr>date = 1, Close = Fin 10, Volume = Fin 500\<rparr>,
               \<lparr>date = 2, Close = Fin 20, Volume = Fin 500\<rparr>,
               \<lparr>date = 3, Close = Fin 19, Volume = Fin 500\<rparr>]"

definition dip_signaled :: "sbar list" where
  "dip_signaled =
     [\<lparr>date = 1, Close = Fin 10, Volume = Fin 500, rsi = NaN,
         sma_short = Fin 10, sma_long = NaN, ma_diff = NaN,
         ma_diff_prev = NaN, signal = 0\<rparr>,
      \<lparr>date = 2, Close = Fin 20, Volume = Fin 500, rsi = Fin 100,
         sma_short = Fin 20, sma_long = NaN, ma_diff = NaN,
         ma_diff_prev = NaN, signal = 0\<rparr>,
      \<lparr>date = 3, Close = Fin 19, Volume = Fin 500, rsi = Fin 0,
         sma_short = Fin 19, sma_long = Fin (49 / 3), ma_diff = Fin (8 / 3),
         ma_diff_prev = NaN, signal = 1\<rparr>]"

text \<open>
  The dip followed by an unchanged close: a break-even trade.
\<close>

definition even_bars :: "bar list" where
  "even_bars = [\<lparr>date = 1, Close = Fin 10, Volume = Fin 500\<rparr>,
               \<lparr>date = 2, Close = Fin 20, Volume = Fin 500\<rparr>,
               \<lparr>date = 3, Close = Fin 19, Volume = Fin 500\<rparr>,
               \<lparr>date = 4, Close = Fin 19, Volume = Fin 500\<rparr>]"

definition even_signaled :: "sbar list" where
  "even_signaled =
     [\<lparr>date = 1, Close = Fin 10, Volume = Fin 500, rsi = NaN,
         sma_short = Fin 10, sma_long = NaN, ma_diff = NaN,
         ma_diff_prev = NaN, signal = 0\<rparr>,
      \<lparr>date = 2, Close = Fin 20, Volume = Fin 500, rsi = Fin 100,
         sma_short = Fin 20, sma_long = NaN, ma_diff = NaN,
         ma_diff_prev = NaN, signal = 0\<rparr>,
      \<lparr>date = 3, Close = Fin 19, Volume = Fin 500, rsi = Fin 0,
         sma_short = Fin 19, sma_long = Fin (49 / 3), ma_diff = Fin (8 / 3),
         ma_diff_prev = NaN, signal = 1\<rparr>,
      \<lparr>date = 4, Close = Fin 19, Volume = Fin 500, rsi = NaN,
         sma_short = Fin 19, sma_long = Fin (58 / 3),
         ma_diff = Fin (- (1 / 3)), ma_diff_prev = Fin (8 / 3), signal = 0\<rparr>]"

definition even_trade :: trade where
  "even_trade = \<lparr>tr_entry_date = Some 3, tr_exit_date = 4, tr_entry_price = Fin 19,
          tr_exit_price = Fin 19, tr_shares = Fin (100000 / 19),
          tr_pnl = Fin 0, tr_pnl_pct = Fin 0\<rparr>"

definition even_summary :: summary where
  "even_summary = \<lparr>total_trades = 1, wins = 0, losses = 1, win_rate = Fin 0,
                     cumulative_return_pct = Fin 0\<rparr>"

text \<open>
  A close of zero on the bar of the buy signal and on the last bar (parameters 1, 2, 3).
\<close>

definition zero_bars :: "bar list" where
  "zero_bars = [\<lparr>date = 1, Close = Fin 1, Volume = Fin 500\<rparr>,
               \<lparr>date = 2, Close = Fin 30, Volume = Fin 500\<rparr>,
               \<lparr>date = 3, Close = Fin 0, Volume = Fin 500\<rparr>,
               \<lparr>date = 4, Close = Fin 0, Volume = Fin 500\<rparr>]"

definition zero_signaled :: "sbar list" where
  "zero_signaled =
     [\<lparr>date = 1, Close = Fin 1, Volume = Fin 500, rsi = NaN,
         sma_short = NaN, sma_long = NaN, ma_diff = NaN, ma_diff_prev = NaN,
         signal = 0\<rparr>,
      \<lparr>date = 2, Close = Fin 30, Volume = Fin 500, rsi = Fin 100,
         sma_short = Fin (31 / 2), sma_long = NaN, ma_diff = NaN,
         ma_diff_prev = NaN, signal = 0\<rparr>,
      \<lparr>date = 3, Close = Fin 0, Volume = Fin 500, rsi = Fin 0,
         sma_short = Fin 15, sma_long = Fin (31 / 3),
         ma_diff = Fin (14 / 3), ma_diff_prev = NaN, signal = 1\<rparr>,
      \<lparr>date = 4, Close = Fin 0, Volume = Fin 500, rsi = NaN,
         sma_short = Fin 0, sma_long = Fin 10, ma_diff = Fin (- 10),
         ma_diff_prev = Fin (14 / 3), signal = 0\<rparr>]"

definition zero_trade :: trade where
  "zero_trade = \<lparr>tr_entry_date = Some 3, tr_exit_date = 4, tr_entry_price = Fin 0,
          tr_exit_price = Fin 0, tr_shares = PInf, tr_pnl = NaN, tr_pnl_pct = NaN\<rparr>"


definition flat_closes :: "float64 list" where
  "flat_closes = replicate 15 (Fin 50)"

definition rising_closes :: "float64 list" where
  "rising_closes = [Fin 1, Fin 2, Fin 3]"

text \<open>
  A store with the sample bars as its only frame.
\<close>

definition demo_store :: store where
  "demo_store = \<lparr> frames = (\<lambda>i. Bars [])(0 := Bars demo_bars), next_id = 1 \<rparr>"

section \<open>Floating-point and series lemmas\<close>

lemma fadd_NaN_right [simp]: "fadd x NaN = NaN"
  by (cases x) simp_all

lemma fmul_NaN_right [simp]: "fmul x NaN = NaN"
  by (cases x) simp_all

lemma fdiv_NaN_right [simp]: "fdiv x NaN = NaN"
  by (cases x) simp_all

lemma fsub_NaN [simp]: "fsub NaN y = NaN" "fsub x NaN = NaN"
  by (simp_all add: fsub_def)

lemma flt_NaN [simp]: "\<not> flt NaN y" "\<not> flt x NaN"
  by (cases x; simp)+

lemma fgt_NaN [simp]: "\<not> fgt NaN y" "\<not> fgt x NaN"
  by (simp_all add: fgt_def)

lemma length_prep_values [simp]: "length (prep_values xs) = length xs"
  by (simp add: prep_values_def)

lemma prep_values_Cons [simp]: "prep_values (x # xs) = inf_to_nan x # prep_values xs"
  by (simp add: prep_values_def)

lemma prep_values_Nil [simp]: "prep_values [] = []"
  by (simp add: prep_values_def)

lemma prep_values_replicate [simp]:
  "prep_values (replicate k x) = replicate k (inf_to_nan x)"
  by (simp add: prep_values_def)

lemma inf_to_nan_simps [simp]:
  "inf_to_nan NaN = NaN" "inf_to_nan (Fin v) = Fin v" "inf_to_nan PInf = NaN"
  "inf_to_nan NInf = NaN"
  by (simp_all add: inf_to_nan_def)

lemma length_diff_from [simp]: "length (diff_from p xs) = length xs"
  by (induction xs arbitrary: p) simp_all

lemma length_diff [simp]: "length (diff xs) = length xs"
  by (simp add: diff_def)

lemma length_ewm_loop [simp]: "length (ewm_loop f m w n ow xs) = length xs"
  by (induction xs arbitrary: w n ow) (simp_all add: Let_def)

lemma length_ewm_mean [simp]: "length (ewm_mean a m xs) = length xs"
  by (cases xs) (simp_all add: ewm_mean_def Let_def)

lemma length_rolling_mean [simp]: "length (rolling_mean xs w) = length xs"
  by (simp add: rolling_mean_def)

lemma length_rsi_avg [simp]:
  "length (rsi_avg_gain xs p) = length xs" "length (rsi_avg_loss xs p) = length xs"
  by (simp_all add: rsi_avg_gain_def rsi_avg_loss_def rsi_gain_def rsi_loss_def)

subsection \<open>Warm-up\<close>

lemma ewm_loop_warmup:
  "j < length xs \<Longrightarrow> nobs + Suc j < minp \<Longrightarrow> ewm_loop f minp w nobs ow xs ! j = NaN"
proof (induction xs arbitrary: j w nobs ow)
  case Nil
  then show ?case by simp
next
  case (Cons x xs)
  show ?case
  proof (cases j)
    case 0
    with Cons.prems show ?thesis by (simp add: Let_def)
  next
    case (Suc k)
    with Cons.prems show ?thesis
      by (simp add: Let_def Cons.IH)
  qed
qed

lemma ewm_mean_warmup:
  assumes "i < length xs" "i < minp" "xs ! 0 = NaN"
  shows "ewm_mean a minp xs ! i = NaN"
proof (cases xs)
  case Nil
  with assms show ?thesis by simp
next
  case (Cons v rest)
  with assms have v: "v = NaN" by simp
  show ?thesis
  proof (cases i)
    case 0
    with Cons v assms show ?thesis by (simp add: ewm_mean_def)
  next
    case (Suc k)
    with Cons v assms show ?thesis
      by (simp add: ewm_mean_def ewm_loop_warmup)
  qed
qed

lemma diff_first: "xs \<noteq> [] \<Longrightarrow> diff xs ! 0 = NaN"
  by (cases xs) (simp_all add: diff_def)

lemma rsi_gain_first: "xs \<noteq> [] \<Longrightarrow> rsi_gain xs ! 0 = NaN"
  by (cases xs) (simp_all add: rsi_gain_def diff_def clip_lower0_def)

lemma rsi_loss_first: "xs \<noteq> [] \<Longrightarrow> rsi_loss xs ! 0 = NaN"
  by (cases xs) (simp_all add: rsi_loss_def diff_def clip_upper0_def)

lemma rsi_of_NaN [simp]: "rsi_of NaN l = NaN" "rsi_of g NaN = NaN"
  by (simp_all add: rsi_of_def)

lemma rsi_warmup:
  assumes "i < length xs" "i < p"
  shows "map2 rsi_of (rsi_avg_gain xs p) (rsi_avg_loss xs p) ! i = NaN"
proof -
  have ne: "xs \<noteq> []" using assms by auto
  have "rsi_avg_gain xs p ! i = NaN"
    unfolding rsi_avg_gain_def using assms ne
    by (intro ewm_mean_warmup) (simp_all add: rsi_gain_first, simp add: rsi_gain_def)
  moreover have "length (rsi_avg_gain xs p) = length xs" "length (rsi_avg_loss xs p) = length xs"
    by (simp_all add: rsi_avg_gain_def rsi_avg_loss_def rsi_gain_def rsi_loss_def)
  ultimately show ?thesis using assms by simp
qed

lemma rolling_mean_warmup:
  "i < length xs \<Longrightarrow> Suc i < w \<Longrightarrow> rolling_mean xs w ! i = NaN"
  by (simp add: rolling_mean_def rolling_mean_at_def)

subsection \<open>A constant series\<close>

lemma ewm_loop_zeros:
  "j < k \<Longrightarrow>
   ewm_loop f m (Fin 0) n ow (replicate k (Fin 0)) ! j = (if m \<le> n + Suc j then Fin 0 else NaN)"
proof (induction k arbitrary: j n ow)
  case 0
  then show ?case by simp
next
  case (Suc k)
  show ?case
  proof (cases j)
    case 0
    then show ?thesis by (simp add: Let_def fne_def)
  next
    case (Suc j')
    with Suc.prems have "j' < k" by simp
    from Suc.IH[OF this] Suc show ?thesis
      by (simp add: Let_def fne_def)
  qed
qed

lemma ewm_mean_flat:
  assumes "i < Suc k"
  shows "ewm_mean a m (NaN # replicate k (Fin 0)) ! i = (if 0 < i \<and> m \<le> i then Fin 0 else NaN)"
proof (cases i)
  case 0
  then show ?thesis by (simp add: ewm_mean_def)
next
  case (Suc j)
  with assms obtain k' where k: "k = Suc k'" by (cases k) auto
  show ?thesis
  proof (cases j)
    case 0
    with Suc k show ?thesis
      by (auto simp: ewm_mean_def Let_def)
  next
    case (Suc j')
    with \<open>i = Suc j\<close> assms k have "j' < k'" by simp
    from ewm_loop_zeros[OF this, of "Fin (1 - a)" "max m 1" 1] Suc \<open>i = Suc j\<close> k
    show ?thesis
      by (auto simp: ewm_mean_def Let_def)
  qed
qed

lemma diff_from_replicate:
  "diff_from (Fin v) (replicate k (Fin v)) = replicate k (Fin 0)"
  by (induction k) (simp_all add: fsub_def)

lemma diff_replicate:
  "diff (replicate (Suc k) (Fin v)) = NaN # replicate k (Fin 0)"
  by (simp add: diff_def diff_from_replicate)

lemma rsi_gain_flat: "rsi_gain (replicate (Suc k) (Fin v)) = NaN # replicate k (Fin 0)"
  unfolding rsi_gain_def diff_replicate by (simp add: clip_lower0_def)

lemma rsi_loss_flat: "rsi_loss (replicate (Suc k) (Fin v)) = NaN # replicate k (Fin 0)"
  unfolding rsi_loss_def diff_replicate by (simp add: clip_upper0_def fgt_def)

lemma rsi_of_zero_zero: "rsi_of (Fin 0) (Fin 0) = NaN"
  by (simp add: rsi_of_def inf_of_def)

lemma rsi_of_zero_loss:
  "g \<noteq> Fin 0 \<Longrightarrow> g \<noteq> NaN \<Longrightarrow> rsi_of g (Fin 0) = Fin 100"
  by (cases g) (simp_all add: rsi_of_def inf_of_def fsub_def)

lemma rsi_of_NaN_gain: "rsi_of NaN l = NaN"
  by (simp add: rsi_of_def)

lemma flat_series_rsi:
  assumes "0 < p" "p \<le> i" "i < Suc k"
  shows "rsi_avg_loss (replicate (Suc k) (Fin v)) p ! i = Fin 0"
    and "rsi_avg_gain (replicate (Suc k) (Fin v)) p ! i = Fin 0"
    and "map2 rsi_of (rsi_avg_gain (replicate (Suc k) (Fin v)) p)
                     (rsi_avg_loss (replicate (Suc k) (Fin v)) p) ! i = NaN"
proof -
  show l: "rsi_avg_loss (replicate (Suc k) (Fin v)) p ! i = Fin 0"
    unfolding rsi_avg_loss_def rsi_loss_flat using assms by (simp add: ewm_mean_flat)
  show g: "rsi_avg_gain (replicate (Suc k) (Fin v)) p ! i = Fin 0"
    unfolding rsi_avg_gain_def rsi_gain_flat using assms by (simp add: ewm_mean_flat)
  show "map2 rsi_of (rsi_avg_gain (replicate (Suc k) (Fin v)) p)
                     (rsi_avg_loss (replicate (Suc k) (Fin v)) p) ! i = NaN"
  proof -
    let ?xs = "replicate (Suc k) (Fin v)"
    have "map2 rsi_of (rsi_avg_gain ?xs p) (rsi_avg_loss ?xs p) ! i =
        rsi_of (rsi_avg_gain ?xs p ! i) (rsi_avg_loss ?xs p ! i)"
      using assms(3) by (simp del: replicate.simps)
    then show ?thesis
      unfolding l g rsi_of_zero_zero .
  qed
qed

section \<open>Lemmas on signal generation\<close>

lemma buy_condition_NaN [simp]: "\<not> buy_condition NaN m" "\<not> buy_condition r NaN"
  by (simp_all add: buy_condition_def)

lemma generate_signals_Bars:
  "generate_signals (Bars df) rsi_period short_window long_window =
     (case calculate_rsi (map Close df) rsi_period of
        Inl e \<Rightarrow> Inl e
      | Inr rsi_col \<Rightarrow>
     (case calculate_sma (map Close df) short_window of
        Inl e \<Rightarrow> Inl e
      | Inr sma_short_col \<Rightarrow>
     (case calculate_sma (map Close df) long_window of
        Inl e \<Rightarrow> Inl e
      | Inr sma_long_col \<Rightarrow>
          Inr (map (signaled_row df rsi_col sma_short_col sma_long_col)
                   [0..<length df]))))"
  by (simp add: generate_signals_def input_rows_def)


lemma generate_signals_Inr:
  assumes "0 < p" "0 \<le> sw" "0 \<le> lw"
  shows "generate_signals (Bars df) p sw lw =
           Inr (map (signaled_row df
                       (map2 rsi_of (rsi_avg_gain (map Close df) (nat p))
                                    (rsi_avg_loss (map Close df) (nat p)))
                       (rolling_mean (map Close df) (nat sw))
                       (rolling_mean (map Close df) (nat lw)))
                    [0..<length df])"
  using assms by (simp add: generate_signals_Bars calculate_rsi_def calculate_sma_def)


lemma signaled_row_bar [simp]:
  "date (signaled_row df rc sc lc i) = date (df ! i)"
  "Close (signaled_row df rc sc lc i) = Close (df ! i)"
  "Volume (signaled_row df rc sc lc i) = Volume (df ! i)"
  by (simp_all add: signaled_row_def Let_def)

lemma signaled_row_truncate: "bar.truncate (signaled_row df rc sc lc i) = df ! i"
  by (simp add: bar.truncate_def)

lemma signaled_row_signal:
  "signal (signaled_row df rc sc lc i) =
     (if buy_condition (rsi (signaled_row df rc sc lc i)) (ma_diff (signaled_row df rc sc lc i))
      then 1 else 0)"
  by (simp add: signaled_row_def Let_def)

lemma signaled_row_ma_diff:
  "i < length df \<Longrightarrow> ma_diff (signaled_row df rc sc lc i) =
     fsub (sma_short (signaled_row df rc sc lc i)) (sma_long (signaled_row df rc sc lc i))"
  by (simp add: signaled_row_def Let_def col_at_def)

lemma row_rule:
  fixes b :: sbar
  assumes sg: "signal b = (if buy_condition (rsi b) (ma_diff b) then 1 else 0)"
      and md: "ma_diff b = fsub (sma_short b) (sma_long b)"
  shows "(signal b = 1 \<longleftrightarrow> flt (rsi b) (Fin 30) \<and> fgt (ma_diff b) (Fin 0)) \<and>
         (signal b = 0 \<longleftrightarrow> \<not> (flt (rsi b) (Fin 30) \<and> fgt (ma_diff b) (Fin 0))) \<and>
         (rsi b = NaN \<or> sma_short b = NaN \<or> sma_long b = NaN \<longrightarrow> signal b = 0)"
proof -
  have "rsi b = NaN \<or> sma_short b = NaN \<or> sma_long b = NaN \<Longrightarrow>
          \<not> buy_condition (rsi b) (ma_diff b)"
    using md by auto
  then show ?thesis
    using sg by (auto simp: buy_condition_def)
qed

section \<open>Lemmas on the backtest loop\<close>

lemma bt_upto_0 [simp]: "bt_upto df c r 0 = bt_init c"
  by (simp add: bt_upto_def)

lemma bt_upto_Suc: "bt_upto df c r (Suc k) = bt_step df r k (bt_upto df c r k)"
  by (simp add: bt_upto_def)

lemma bt_step_enter:
  "\<not> in_position s \<Longrightarrow> signal (df ! i) = 1 \<Longrightarrow>
   bt_step df r i s =
     s\<lparr> entry_price := Close (df ! i), entry_date := Some (date (df ! i)),
        shares := fdiv (capital s) (Close (df ! i)), in_position := True \<rparr>"
  by (simp add: bt_step_def Let_def)

lemma bt_step_idle:
  "\<not> in_position s \<Longrightarrow> signal (df ! i) \<noteq> 1 \<Longrightarrow> bt_step df r i s = s"
  by (simp add: bt_step_def Let_def)

lemma bt_step_exit:
  "in_position s \<Longrightarrow> spec_exit_trigger r (i = length df - 1) (df ! i) \<Longrightarrow>
   bt_step df r i s =
     s\<lparr> capital := fadd (capital s) (fmul (fsub (Close (df ! i)) (entry_price s)) (shares s)),
        trades := trades s @
          [\<lparr> tr_entry_date = entry_date s, tr_exit_date = date (df ! i),
             tr_entry_price = entry_price s, tr_exit_price = Close (df ! i),
             tr_shares = shares s,
             tr_pnl = fmul (fsub (Close (df ! i)) (entry_price s)) (shares s),
             tr_pnl_pct = fdiv (fmul (fsub (Close (df ! i)) (entry_price s)) (shares s))
                               (fmul (entry_price s) (shares s)) \<rparr>],
        in_position := False, entry_price := Fin 0, shares := Fin 0 \<rparr>"
  by (simp add: bt_step_def Let_def spec_exit_trigger_def)

lemma bt_step_hold:
  "in_position s \<Longrightarrow> \<not> spec_exit_trigger r (i = length df - 1) (df ! i) \<Longrightarrow>
   bt_step df r i s = s"
  by (auto simp: bt_step_def Let_def spec_exit_trigger_def)

subsection \<open>The loop and the state machine\<close>

lemma step_corresponds:
  assumes "corresponds s st"
  shows "corresponds (bt_step df r i s) (spec_step r (i = length df - 1) (df ! i) st)"
proof (cases "position st")
  case Flat
  with assms have flat: "\<not> in_position s" by (simp add: corresponds_def)
  show ?thesis
  proof (cases "signal (df ! i) = 1")
    case True
    with flat Flat assms show ?thesis
      by (simp add: bt_step_enter spec_step_def corresponds_def)
  next
    case False
    with flat Flat assms show ?thesis
      by (simp add: bt_step_idle spec_step_def)
  qed
next
  case (Entered ep ed sh)
  with assms have pos: "in_position s" "entry_price s = ep" "entry_date s = Some ed" "shares s = sh"
    by (simp_all add: corresponds_def)
  show ?thesis
  proof (cases "spec_exit_trigger r (i = length df - 1) (df ! i)")
    case True
    with pos Entered assms show ?thesis
      by (simp add: bt_step_exit spec_step_def corresponds_def spec_trade_def Let_def)
  next
    case False
    with pos Entered assms show ?thesis
      by (simp add: bt_step_hold spec_step_def)
  qed
qed

lemma loop_corresponds:
  assumes "corresponds s st" "k \<le> length df"
  shows "corresponds (fold (bt_step df r) [k..<length df] s) (spec_run r (drop k df) st)"
  using assms
proof (induction "length df - k" arbitrary: k s st)
  case 0
  then show ?case by simp
next
  case (Suc n)
  then have k: "k < length df" by simp
  have upt: "[k..<length df] = k # [Suc k..<length df]"
    using k by (rule upt_conv_Cons)
  have drp: "drop k df = df ! k # drop (Suc k) df"
    using k by (simp add: Cons_nth_drop_Suc)
  have lst: "(drop (Suc k) df = []) = (k = length df - 1)"
    using k by auto
  have "corresponds (bt_step df r k s) (spec_step r (k = length df - 1) (df ! k) st)"
    using Suc.prems(1) by (rule step_corresponds)
  moreover have "n = length df - Suc k" using Suc.hyps(2) by simp
  ultimately have "corresponds (fold (bt_step df r) [Suc k..<length df] (bt_step df r k s))
      (spec_run r (drop (Suc k) df) (spec_step r (k = length df - 1) (df ! k) st))"
    using k by (intro Suc.hyps(1)) simp_all
  then show ?case
    by (simp only: upt drp lst fold.simps spec_run.simps comp_apply)
qed

subsection \<open>Entries and trades\<close>

lemma entries_before_Suc:
  "entries_before df c r (Suc k) =
     entries_before df c r k @ (if is_entry df c r k then [k] else [])"
  by (simp add: entries_before_def)

lemma ledger_inv_0: "ledger_inv df c r 0"
  by (simp add: ledger_inv_def bt_init_def entries_before_def)

lemma ledger_inv_step:
  assumes inv: "ledger_inv df c r k" and k: "k < length df"
  shows "ledger_inv df c r (Suc k)"
proof -
  let ?s = "bt_upto df c r k"
  have up: "bt_upto df c r (Suc k) = bt_step df r k ?s" by (rule bt_upto_Suc)
  show ?thesis
  proof (cases "in_position ?s")
    case False
    with inv have la: "list_all2 (closes df) (trades ?s) (entries_before df c r k)"
      by (simp add: ledger_inv_def Let_def)
    show ?thesis
    proof (cases "signal (df ! k) = 1")
      case True
      with False have ent: "is_entry df c r k" by (simp add: is_entry_def)
      have st: "bt_upto df c r (Suc k) = ?s\<lparr> entry_price := Close (df ! k),
          entry_date := Some (date (df ! k)),
          shares := fdiv (capital ?s) (Close (df ! k)), in_position := True \<rparr>"
        unfolding up using False True by (rule bt_step_enter)
      have "entries_before df c r (Suc k) = entries_before df c r k @ [k]"
        using ent by (simp add: entries_before_Suc)
      with la k show ?thesis
        unfolding ledger_inv_def Let_def st by auto
    next
      case sig: False
      with False have ent: "\<not> is_entry df c r k" by (simp add: is_entry_def)
      have st: "bt_upto df c r (Suc k) = ?s"
        unfolding up using False sig by (rule bt_step_idle)
      have "entries_before df c r (Suc k) = entries_before df c r k"
        using ent by (simp add: entries_before_Suc)
      with la False show ?thesis
        unfolding ledger_inv_def Let_def st by simp
    qed
  next
    case True
    with inv obtain i where i: "i < k"
      and eb: "entries_before df c r k = entries_before df c r i @ [i]"
      and la: "list_all2 (closes df) (trades ?s) (entries_before df c r i)"
      and ed: "entry_date ?s = Some (date (df ! i))"
      and ep: "entry_price ?s = Close (df ! i)"
      by (auto simp: ledger_inv_def Let_def)
    from True have ent: "\<not> is_entry df c r k" by (simp add: is_entry_def)
    then have eb': "entries_before df c r (Suc k) = entries_before df c r i @ [i]"
      using eb by (simp add: entries_before_Suc)
    show ?thesis
    proof (cases "spec_exit_trigger r (k = length df - 1) (df ! k)")
      case trig: True
      let ?t = "\<lparr> tr_entry_date = entry_date ?s, tr_exit_date = date (df ! k),
             tr_entry_price = entry_price ?s, tr_exit_price = Close (df ! k),
             tr_shares = shares ?s,
             tr_pnl = fmul (fsub (Close (df ! k)) (entry_price ?s)) (shares ?s),
             tr_pnl_pct = fdiv (fmul (fsub (Close (df ! k)) (entry_price ?s)) (shares ?s))
                               (fmul (entry_price ?s) (shares ?s)) \<rparr>"
      have st: "\<not> in_position (bt_upto df c r (Suc k))"
          "trades (bt_upto df c r (Suc k)) = trades ?s @ [?t]"
        unfolding up by (simp_all add: bt_step_exit[OF True trig])
      have "closes df ?t i"
        using i k ed ep by (auto simp: closes_def)
      with la have "list_all2 (closes df) (trades ?s @ [?t]) (entries_before df c r i @ [i])"
        by (simp add: list_all2_appendI)
      then show ?thesis
        unfolding ledger_inv_def Let_def using st eb' by simp
    next
      case notrig: False
      then have nl: "k \<noteq> length df - 1" by (auto simp: spec_exit_trigger_def)
      have st: "bt_upto df c r (Suc k) = ?s"
        unfolding up using True notrig by (rule bt_step_hold)
      have "Suc k \<noteq> length df" using nl by auto
      with i eb' la ed ep True show ?thesis
        unfolding ledger_inv_def Let_def st by auto
    qed
  qed
qed

lemma ledger_inv_all: "k \<le> length df \<Longrightarrow> ledger_inv df c r k"
proof (induction k)
  case 0
  show ?case by (rule ledger_inv_0)
next
  case (Suc k)
  then show ?case by (intro ledger_inv_step) simp_all
qed

lemma open_at_end:
  "in_position (bt_loop df c r) \<longleftrightarrow> df \<noteq> [] \<and> is_entry df c r (length df - 1)"
proof (cases df rule: rev_cases)
  case Nil
  then show ?thesis by (simp add: bt_loop_def bt_init_def)
next
  case (snoc ys y)
  let ?k = "length ys"
  let ?s = "bt_upto df c r ?k"
  have len: "length df = Suc ?k" using snoc by simp
  have up: "bt_loop df c r = bt_step df r ?k ?s"
    by (simp add: bt_loop_def len bt_upto_Suc)
  have trig: "spec_exit_trigger r (?k = length df - 1) (df ! ?k)"
    by (simp add: spec_exit_trigger_def len)
  show ?thesis
  proof (cases "in_position ?s")
    case True
    then have "\<not> in_position (bt_loop df c r)"
      unfolding up by (simp add: bt_step_exit[OF True trig])
    with True show ?thesis by (simp add: is_entry_def len)
  next
    case False
    show ?thesis
    proof (cases "signal (df ! ?k) = 1")
      case True
      with False show ?thesis
        unfolding up by (simp add: bt_step_enter is_entry_def len snoc)
    next
      case sig: False
      with False show ?thesis
        unfolding up by (simp add: bt_step_idle is_entry_def len)
    qed
  qed
qed

lemma trades_close_entries:
  "list_all2 (closes df) (trades (bt_loop df c r)) (entries_before df c r (length df - 1))"
proof -
  have inv: "ledger_inv df c r (length df)" by (rule ledger_inv_all) simp
  show ?thesis
  proof (cases "in_position (bt_loop df c r)")
    case True
    with inv obtain i where a: "Suc i = length df"
      and b: "list_all2 (closes df) (trades (bt_loop df c r)) (entries_before df c r i)"
      by (auto simp: ledger_inv_def Let_def bt_loop_def)
    from a have "i = length df - 1" by simp
    with b show ?thesis by simp
  next
    case False
    with inv have la: "list_all2 (closes df) (trades (bt_loop df c r))
        (entries_before df c r (length df))"
      by (simp add: ledger_inv_def Let_def bt_loop_def)
    show ?thesis
    proof (cases df rule: rev_cases)
      case Nil
      with la show ?thesis by simp
    next
      case (snoc ys y)
      with False have "\<not> is_entry df c r (length df - 1)"
        using open_at_end[of df c r] by simp
      moreover have "length df = Suc (length df - 1)" using snoc by simp
      ultimately have "entries_before df c r (length df) = entries_before df c r (length df - 1)"
        using entries_before_Suc[of df c r "length df - 1"] by simp
      with la show ?thesis by simp
    qed
  qed
qed

lemma forced_exit:
  assumes ne: "df \<noteq> []" and pos: "in_position (bt_upto df c r (length df - 1))"
  shows "\<not> in_position (bt_loop df c r) \<and> trades (bt_loop df c r) \<noteq> [] \<and>
         tr_exit_date (last (trades (bt_loop df c r))) = date (last df) \<and>
         tr_exit_price (last (trades (bt_loop df c r))) = Close (last df)"
proof -
  define k where "k = length df - 1"
  have len: "length df = Suc k" using ne by (simp add: k_def)
  have up: "bt_loop df c r = bt_step df r k (bt_upto df c r k)"
    unfolding bt_loop_def len by (rule bt_upto_Suc)
  have trig: "spec_exit_trigger r (k = length df - 1) (df ! k)"
    by (simp add: spec_exit_trigger_def k_def)
  have pos': "in_position (bt_upto df c r k)" using pos by (simp add: k_def)
  have lst: "last df = df ! k" using ne by (simp add: last_conv_nth k_def)
  show ?thesis
    unfolding up lst by (simp add: bt_step_exit[OF pos' trig])
qed

lemma sorted_dates_less:
  "sorted_wrt (<) (map date df) \<Longrightarrow> i < j \<Longrightarrow> j < length df \<Longrightarrow> date (df ! i) < date (df ! j)"
  using sorted_wrt_nth_less[of "(<)" "map date df" i j] by simp

lemma closes_dates:
  assumes "closes df t i" "sorted_wrt (<) (map date df)"
  shows "\<exists>d. tr_entry_date t = Some d \<and> d < tr_exit_date t"
proof -
  from assms(1) obtain j where j: "i < j" "j < length df"
      "tr_exit_date t = date (df ! j)" "tr_entry_date t = Some (date (df ! i))"
    by (auto simp: closes_def)
  from sorted_dates_less[OF assms(2) j(1,2)] j(3,4) show ?thesis by simp
qed

subsection \<open>Position sizing\<close>

lemma capital_before_append:
  "j \<le> length ts \<Longrightarrow> capital_before c (ts @ us) j = capital_before c ts j"
  by (simp add: capital_before_def)

lemma capital_before_snoc:
  "capital_before c (ts @ [t]) (Suc (length ts)) =
     fadd (capital_before c ts (length ts)) (tr_pnl t)"
  by (simp add: capital_before_def)

lemma sizing_inv_0: "sizing_inv df c r 0"
  by (simp add: sizing_inv_def bt_init_def capital_before_def)

lemma sizing_inv_step:
  assumes inv: "sizing_inv df c r k"
  shows "sizing_inv df c r (Suc k)"
proof -
  let ?s = "bt_upto df c r k"
  have up: "bt_upto df c r (Suc k) = bt_step df r k ?s" by (rule bt_upto_Suc)
  from inv have cap: "capital ?s = capital_before c (trades ?s) (length (trades ?s))"
    and sh: "\<And>j. j < length (trades ?s) \<Longrightarrow> tr_shares (trades ?s ! j) =
            fdiv (capital_before c (trades ?s) j) (tr_entry_price (trades ?s ! j))"
    and op: "in_position ?s \<Longrightarrow> shares ?s = fdiv (capital ?s) (entry_price ?s)"
    by (simp_all add: sizing_inv_def Let_def)
  show ?thesis
  proof (cases "in_position ?s")
    case False
    show ?thesis
    proof (cases "signal (df ! k) = 1")
      case True
      show ?thesis
        unfolding sizing_inv_def Let_def up bt_step_enter[OF False True]
        using cap sh by simp
    next
      case sig: False
      show ?thesis
        using inv unfolding sizing_inv_def Let_def up bt_step_idle[OF False sig] .
    qed
  next
    case True
    show ?thesis
    proof (cases "spec_exit_trigger r (k = length df - 1) (df ! k)")
      case trig: True
      show ?thesis
        unfolding sizing_inv_def Let_def up bt_step_exit[OF True trig]
        using cap sh op[OF True]
        by (auto simp: nth_append capital_before_append capital_before_snoc less_Suc_eq)
    next
      case notrig: False
      show ?thesis
        using inv unfolding sizing_inv_def Let_def up bt_step_hold[OF True notrig] .
    qed
  qed
qed

lemma sizing_inv_all: "sizing_inv df c r k"
  by (induction k) (simp_all add: sizing_inv_0 sizing_inv_step)

subsection \<open>The returned ledger and summary\<close>

lemma backtest_signals_Inr:
  assumes "backtest_signals df c r = Inr (trade_df, sm)"
  shows "trade_df = map scale_pnl_pct (trades (bt_loop df c r))"
    and "sm = summarize trade_df (capital (bt_loop df c r)) c"
  using assms by (auto simp: backtest_signals_def Let_def split: if_splits)

lemma scale_pnl_pct_fields [simp]:
  "tr_entry_date (scale_pnl_pct t) = tr_entry_date t"
  "tr_exit_date (scale_pnl_pct t) = tr_exit_date t"
  "tr_entry_price (scale_pnl_pct t) = tr_entry_price t"
  "tr_exit_price (scale_pnl_pct t) = tr_exit_price t"
  "tr_shares (scale_pnl_pct t) = tr_shares t"
  "tr_pnl (scale_pnl_pct t) = tr_pnl t"
  "tr_pnl_pct (scale_pnl_pct t) = fmul (tr_pnl_pct t) (Fin 100)"
  by (simp_all add: scale_pnl_pct_def)

lemma closes_scale [simp]: "closes df (scale_pnl_pct t) i = closes df t i"
  by (simp add: closes_def)

lemma capital_before_scale [simp]:
  "capital_before c (map scale_pnl_pct ts) k = capital_before c ts k"
  by (simp add: capital_before_def take_map o_def)

lemma win_or_loss: "tr_pnl t \<noteq> NaN \<Longrightarrow> is_win t \<noteq> is_loss t"
  by (cases "tr_pnl t") (auto simp: is_win_def is_loss_def fgt_def fle_def)

lemma nan_neither: "tr_pnl t = NaN \<Longrightarrow> \<not> is_win t \<and> \<not> is_loss t"
  by (simp add: is_win_def is_loss_def fgt_def fle_def)

lemma wins_plus_losses:
  "length (filter is_win ts) + length (filter is_loss ts) + length (filter (\<lambda>t. tr_pnl t = NaN) ts)
     = length ts"
proof (induction ts)
  case Nil
  show ?case by simp
next
  case (Cons t ts)
  show ?case
  proof (cases "tr_pnl t = NaN")
    case True
    with nan_neither[OF True] Cons show ?thesis by simp
  next
    case False
    with win_or_loss[OF False] Cons show ?thesis by auto
  qed
qed

lemma wins_losses_total_iff:
  "length (filter is_win ts) + length (filter is_loss ts) = length ts
     \<longleftrightarrow> (\<forall>t \<in> set ts. tr_pnl t \<noteq> NaN)"
proof -
  have "length (filter (\<lambda>t. tr_pnl t = NaN) ts) = 0 \<longleftrightarrow> (\<forall>t \<in> set ts. tr_pnl t \<noteq> NaN)"
    by (simp add: filter_empty_conv)
  with wins_plus_losses[of ts] show ?thesis by linarith
qed

lemma zero_pnl_is_loss: "tr_pnl t = Fin 0 \<Longrightarrow> is_loss t \<and> \<not> is_win t"
  by (simp add: is_win_def is_loss_def fgt_def fle_def)

lemma summarize_fields:
  "total_trades (summarize ts fc c) = length ts"
  "wins (summarize ts fc c) = length (filter is_win ts)"
  "losses (summarize ts fc c) = length (filter is_loss ts)"
  "cumulative_return_pct (summarize ts fc c) = fmul (fsub (fdiv fc c) (Fin 1)) (Fin 100)"
  by (simp_all add: summarize_def)

lemma summarize_win_rate:
  "win_rate (summarize ts fc c) =
     (if ts = [] then Fin 0 else Fin (real (length (filter is_win ts)) / real (length ts)))"
  by (simp add: summarize_def)



section \<open>Lemmas on frame objects\<close>

lemma copy_frame_keeps:
  "r < next_id st \<Longrightarrow> frames (fst (copy_frame st r)) r = frames st r"
  by (simp add: copy_frame_def)

lemma generate_signals_obj_keeps:
  "r < next_id st \<Longrightarrow>
   frames (fst (generate_signals_obj st r p sw lw)) r = frames st r"
  by (simp add: generate_signals_obj_def copy_frame_def Let_def split: sum.splits)

lemma generate_signals_obj_result:
  "returned_frame (generate_signals_obj st r p sw lw) =
     (case generate_signals (frames st r) p sw lw of
        Inl e \<Rightarrow> Inl e
      | Inr out \<Rightarrow> Inr (SignaledBars out))"
  by (simp add: returned_frame_def generate_signals_obj_def copy_frame_def Let_def
      split: sum.splits)

section \<open>The sample frames evaluated\<close>

lemmas series_eval = calculate_rsi_def calculate_sma_def rsi_avg_gain_def rsi_avg_loss_def
  rsi_gain_def rsi_loss_def diff_def ewm_mean_def rsi_of_def clip_lower0_def clip_upper0_def
  fsub_def fgt_def fne_def fle_def fge_def inf_of_def rolling_mean_def rolling_mean_at_def
  window_at_def fsum_def isnan_def Let_def

lemmas frame_eval = generate_signals_Bars signaled_row_def col_at_def shift1_def
  buy_condition_def

lemmas loop_eval = bt_loop_def bt_upto_def bt_step_def bt_init_def Let_def

lemma upt_3: "[0..<3] = [0, 1, 2]"
  by (simp add: upt_rec)

lemma upt_4: "[0..<4] = [0, 1, 2, 3]"
  by (simp add: upt_rec)

lemma demo_rsi: "calculate_rsi (map Close demo_bars) 1 = Inr [NaN, Fin 100, Fin 0, Fin 100]"
  by (simp add: demo_bars_def series_eval)

lemma demo_sma1: "calculate_sma (map Close demo_bars) 1 = Inr [Fin 10, Fin 20, Fin 19, Fin 25]"
  by (simp add: demo_bars_def series_eval upt_4)

lemma demo_sma3:
  "calculate_sma (map Close demo_bars) 3 = Inr [NaN, NaN, Fin (49 / 3), Fin (64 / 3)]"
  by (simp add: demo_bars_def series_eval upt_4)

lemma demo_signals: "generate_signals (Bars demo_bars) 1 1 3 = Inr demo_signaled"
  unfolding generate_signals_Bars demo_rsi demo_sma1 demo_sma3
  by (simp add: demo_bars_def demo_signaled_def frame_eval fsub_def fgt_def upt_4)

lemma demo_upto_3:
  "bt_upto demo_signaled (Fin 100000) (Fin 70) 3 =
     \<lparr>trades = [], in_position = True, entry_price = Fin 19,
      entry_date = Some 3, shares = Fin (100000 / 19), capital = Fin 100000\<rparr>"
  by (simp add: demo_signaled_def bt_upto_def bt_step_def bt_init_def upt_3 fge_def fle_def fgt_def)

lemma demo_loop:
  "bt_loop demo_signaled (Fin 100000) (Fin 70) =
     \<lparr>trades = [demo_trade\<lparr>tr_pnl_pct := Fin (6 / 19)\<rparr>], in_position = False,
      entry_price = Fin 0, entry_date = Some 3, shares = Fin 0,
      capital = Fin (2500000 / 19)\<rparr>"
proof -
  have "bt_loop demo_signaled (Fin 100000) (Fin 70) =
      bt_step demo_signaled (Fin 70) 3 (bt_upto demo_signaled (Fin 100000) (Fin 70) 3)"
    by (simp add: bt_loop_def demo_signaled_def bt_upto_Suc[symmetric] eval_nat_numeral)
  then show ?thesis
    unfolding demo_upto_3
    by (simp add: demo_signaled_def demo_trade_def bt_step_def fge_def fle_def fgt_def fsub_def)
qed

lemma demo_backtest:
  "backtest_signals demo_signaled (Fin 100000) (Fin 70) =
     Inr ([demo_trade], demo_summary)"
  by (simp add: backtest_signals_def demo_loop summarize_def fsub_def demo_trade_def
      demo_summary_def scale_pnl_pct_def is_win_def is_loss_def fgt_def fle_def)


lemma dip_rsi: "calculate_rsi (map Close dip_bars) 1 = Inr [NaN, Fin 100, Fin 0]"
  by (simp add: dip_bars_def series_eval)

lemma dip_sma1: "calculate_sma (map Close dip_bars) 1 = Inr [Fin 10, Fin 20, Fin 19]"
  by (simp add: dip_bars_def series_eval upt_3)

lemma dip_sma3: "calculate_sma (map Close dip_bars) 3 = Inr [NaN, NaN, Fin (49 / 3)]"
  by (simp add: dip_bars_def series_eval upt_3)

lemma dip_signals: "generate_signals (Bars dip_bars) 1 1 3 = Inr dip_signaled"
  unfolding generate_signals_Bars dip_rsi dip_sma1 dip_sma3
  by (simp add: dip_bars_def dip_signaled_def frame_eval fsub_def fgt_def upt_3)

lemma dip_loop:
  "bt_loop dip_signaled (Fin 100000) (Fin 70) =
     \<lparr>trades = [], in_position = True, entry_price = Fin 19,
      entry_date = Some 3, shares = Fin (100000 / 19), capital = Fin 100000\<rparr>"
  by (simp add: dip_signaled_def loop_eval upt_3 fge_def fle_def fgt_def)

lemma dip_backtest:
  "backtest_signals dip_signaled (Fin 100000) (Fin 70) =
     Inr ([], \<lparr>total_trades = 0, wins = 0, losses = 0, win_rate = Fin 0,
               cumulative_return_pct = Fin 0\<rparr>)"
  by (simp add: backtest_signals_def dip_loop summarize_def fsub_def)

lemma even_rsi: "calculate_rsi (map Close even_bars) 1 = Inr [NaN, Fin 100, Fin 0, NaN]"
  by (simp add: even_bars_def series_eval)

lemma even_sma1: "calculate_sma (map Close even_bars) 1 = Inr [Fin 10, Fin 20, Fin 19, Fin 19]"
  by (simp add: even_bars_def series_eval upt_4)

lemma even_sma3:
  "calculate_sma (map Close even_bars) 3 = Inr [NaN, NaN, Fin (49 / 3), Fin (58 / 3)]"
  by (simp add: even_bars_def series_eval upt_4)

lemma even_signals: "generate_signals (Bars even_bars) 1 1 3 = Inr even_signaled"
  unfolding generate_signals_Bars even_rsi even_sma1 even_sma3
  by (simp add: even_bars_def even_signaled_def frame_eval fsub_def fgt_def upt_4)

lemma even_loop:
  "bt_loop even_signaled (Fin 100000) (Fin 70) =
     \<lparr>trades = [even_trade], in_position = False,
      entry_price = Fin 0, entry_date = Some 3, shares = Fin 0,
      capital = Fin 100000\<rparr>"
  by (simp add: even_signaled_def even_trade_def loop_eval upt_4 fge_def fle_def fgt_def
      fsub_def inf_of_def)

lemma even_backtest:
  "backtest_signals even_signaled (Fin 100000) (Fin 70) = Inr ([even_trade], even_summary)"
  by (simp add: backtest_signals_def even_loop summarize_def fsub_def even_trade_def
      even_summary_def scale_pnl_pct_def is_win_def is_loss_def fgt_def fle_def)

lemma zero_rsi: "calculate_rsi (map Close zero_bars) 1 = Inr [NaN, Fin 100, Fin 0, NaN]"
  by (simp add: zero_bars_def series_eval)

lemma zero_sma2:
  "calculate_sma (map Close zero_bars) 2 = Inr [NaN, Fin (31 / 2), Fin 15, Fin 0]"
  by (simp add: zero_bars_def series_eval upt_4)

lemma zero_sma3:
  "calculate_sma (map Close zero_bars) 3 = Inr [NaN, NaN, Fin (31 / 3), Fin 10]"
  by (simp add: zero_bars_def series_eval upt_4)

lemma zero_signals: "generate_signals (Bars zero_bars) 1 2 3 = Inr zero_signaled"
  unfolding generate_signals_Bars zero_rsi zero_sma2 zero_sma3
  by (simp add: zero_bars_def zero_signaled_def frame_eval fsub_def fgt_def upt_4)

lemma zero_loop:
  "trades (bt_loop zero_signaled (Fin 100000) (Fin 70)) = [zero_trade]"
  by (simp add: zero_signaled_def zero_trade_def loop_eval upt_4 fge_def fle_def fgt_def
      fsub_def inf_of_def)

lemma demo_store_signaled:
  "generate_signals_obj demo_store 0 1 1 3 =
     (\<lparr> frames = (\<lambda>i. Bars [])(0 := Bars demo_bars, 1 := SignaledBars demo_signaled),
        next_id = 2 \<rparr>, Inr 1)"
  by (simp add: generate_signals_obj_def copy_frame_def demo_store_def demo_signals)

section \<open>The claims\<close>

text \<open>
  Claim C1, as amended. Every entry on a bar before the last bar is closed by exactly
  one trade of the returned ledger, in order, and that trade exits on a later bar; a
  position that is open when the last bar is reached is closed on the last bar, at its
  date and at its close price.
\<close>

theorem entries_before_last_bar_closed:
  assumes "backtest_signals df c r = Inr (trade_df, sm)"
  shows "list_all2 (closes df) trade_df (entries_before df c r (length df - 1)) \<and>
         (df \<noteq> [] \<and> in_position (bt_upto df c r (length df - 1)) \<longrightarrow>
            \<not> in_position (bt_loop df c r) \<and> trade_df \<noteq> [] \<and>
            tr_exit_date (last trade_df) = date (last df) \<and>
            tr_exit_price (last trade_df) = Close (last df))"
proof -
  have td: "trade_df = map scale_pnl_pct (trades (bt_loop df c r))"
    using assms by (rule backtest_signals_Inr)
  have "list_all2 (closes df) trade_df (entries_before df c r (length df - 1))"
    unfolding td using trades_close_entries[of df c r]
    by (simp add: list_all2_map1)
  moreover have "\<not> in_position (bt_loop df c r) \<and> trade_df \<noteq> [] \<and>
            tr_exit_date (last trade_df) = date (last df) \<and>
            tr_exit_price (last trade_df) = Close (last df)"
    if "df \<noteq> []" "in_position (bt_upto df c r (length df - 1))"
    using forced_exit[OF that] unfolding td by (simp add: last_map)
  ultimately show ?thesis by blast
qed

theorem entries_before_last_bar_closed_witness:
  "list_all2 (closes demo_signaled) [demo_trade]
      (entries_before demo_signaled (Fin 100000) (Fin 70) (length demo_signaled - 1)) \<and>
   demo_signaled \<noteq> [] \<and>
   in_position (bt_upto demo_signaled (Fin 100000) (Fin 70) (length demo_signaled - 1)) \<and>
   \<not> in_position (bt_loop demo_signaled (Fin 100000) (Fin 70)) \<and>
   tr_exit_date (last [demo_trade]) = date (last demo_signaled) \<and>
   tr_exit_price (last [demo_trade]) = Close (last demo_signaled)"
proof -
  have len: "length demo_signaled - 1 = 3" by (simp add: demo_signaled_def)
  have pos: "in_position (bt_upto demo_signaled (Fin 100000) (Fin 70) (length demo_signaled - 1))"
    unfolding len demo_upto_3 by simp
  have ne: "demo_signaled \<noteq> []" by (simp add: demo_signaled_def)
  from entries_before_last_bar_closed[OF demo_backtest] pos ne show ?thesis by blast
qed

text \<open>
  Claim C1 as stated fails for an entry on the last bar. On the three bars of
  \<open>dip_bars\<close> the buy signal is on the last bar: the loop enters there, the run ends
  with the position open, and no trade is returned.
\<close>

theorem entry_on_last_bar_counterexample:
  "generate_signals (Bars dip_bars) 1 1 3 = Inr dip_signaled \<and>
   length dip_signaled = 3 \<and>
   is_entry dip_signaled (Fin 100000) (Fin 70) 2 \<and>
   backtest_signals dip_signaled (Fin 100000) (Fin 70) =
     Inr ([], \<lparr>total_trades = 0, wins = 0, losses = 0, win_rate = Fin 0,
               cumulative_return_pct = Fin 0\<rparr>) \<and>
   in_position (bt_loop dip_signaled (Fin 100000) (Fin 70))"
proof -
  have "is_entry dip_signaled (Fin 100000) (Fin 70) 2"
    by (simp add: is_entry_def dip_signaled_def bt_upto_def bt_step_def bt_init_def
        eval_nat_numeral)
  moreover have "length dip_signaled = 3" by (simp add: dip_signaled_def)
  ultimately show ?thesis
    by (simp add: dip_signals dip_backtest dip_loop)
qed

text \<open>
  Claim C2. The loop of \<open>backtest_signals\<close> is the single-position state machine of
  the specification: run over the whole frame from the initial state, the loop ends in
  the state in which the machine ends, with the same position, capital and ledger.
\<close>

theorem backtest_refines_state_machine:
  "corresponds (bt_loop df initial_capital rsi_exit)
               (spec_run rsi_exit df (spec_init initial_capital))"
proof -
  have "corresponds (bt_init initial_capital) (spec_init initial_capital)"
    by (simp add: corresponds_def bt_init_def spec_init_def)
  from loop_corresponds[OF this, of 0 df rsi_exit] show ?thesis
    by (simp add: bt_loop_def bt_upto_def)
qed

text \<open>
  Claim C3. For valid parameters \<open>generate_signals\<close> returns, and on every row of the
  result \<open>signal\<close> is 1 exactly when \<open>rsi < 30\<close> and \<open>ma_diff > 0\<close>, and 0 otherwise.
  A row on which \<open>rsi\<close>, \<open>sma_short\<close> or \<open>sma_long\<close> is NaN has signal 0, and the
  indicators are NaN throughout their warm-up periods.
\<close>

theorem generate_signals_rule:
  assumes "0 < p" "0 \<le> sw" "0 \<le> lw"
  shows "\<exists>out. generate_signals (Bars df) p sw lw = Inr out \<and>
           (\<forall>i < length out.
              (signal (out ! i) = 1 \<longleftrightarrow>
                 flt (rsi (out ! i)) (Fin 30) \<and> fgt (ma_diff (out ! i)) (Fin 0)) \<and>
              (signal (out ! i) = 0 \<longleftrightarrow>
                 \<not> (flt (rsi (out ! i)) (Fin 30) \<and> fgt (ma_diff (out ! i)) (Fin 0))) \<and>
              (rsi (out ! i) = NaN \<or> sma_short (out ! i) = NaN \<or> sma_long (out ! i) = NaN
                 \<longrightarrow> signal (out ! i) = 0) \<and>
              (i < nat p \<longrightarrow> rsi (out ! i) = NaN) \<and>
              (Suc i < nat sw \<longrightarrow> sma_short (out ! i) = NaN) \<and>
              (Suc i < nat lw \<longrightarrow> sma_long (out ! i) = NaN))"
proof -
  let ?rc = "map2 rsi_of (rsi_avg_gain (map Close df) (nat p)) (rsi_avg_loss (map Close df) (nat p))"
  let ?sc = "rolling_mean (map Close df) (nat sw)"
  let ?lc = "rolling_mean (map Close df) (nat lw)"
  define out where "out = map (signaled_row df ?rc ?sc ?lc) [0..<length df]"
  have gs: "generate_signals (Bars df) p sw lw = Inr out"
    unfolding out_def using assms by (rule generate_signals_Inr)
  have len: "length ?rc = length df"
    by (simp add: rsi_avg_gain_def rsi_avg_loss_def rsi_gain_def rsi_loss_def)
  have lout: "length out = length df"
    by (simp add: out_def)
  have row: "out ! i = signaled_row df ?rc ?sc ?lc i" if "i < length df" for i
    using that by (simp add: out_def)
  have main: "(signal (out ! i) = 1 \<longleftrightarrow>
           flt (rsi (out ! i)) (Fin 30) \<and> fgt (ma_diff (out ! i)) (Fin 0)) \<and>
        (signal (out ! i) = 0 \<longleftrightarrow>
           \<not> (flt (rsi (out ! i)) (Fin 30) \<and> fgt (ma_diff (out ! i)) (Fin 0))) \<and>
        (rsi (out ! i) = NaN \<or> sma_short (out ! i) = NaN \<or> sma_long (out ! i) = NaN
           \<longrightarrow> signal (out ! i) = 0) \<and>
        (i < nat p \<longrightarrow> rsi (out ! i) = NaN) \<and>
        (Suc i < nat sw \<longrightarrow> sma_short (out ! i) = NaN) \<and>
        (Suc i < nat lw \<longrightarrow> sma_long (out ! i) = NaN)"
    if i: "i < length df" for i
  proof -
    have sg: "signal (out ! i) =
        (if buy_condition (rsi (out ! i)) (ma_diff (out ! i)) then 1 else 0)"
      unfolding row[OF i] by (rule signaled_row_signal)
    have md: "ma_diff (out ! i) = fsub (sma_short (out ! i)) (sma_long (out ! i))"
      unfolding row[OF i] using i by (rule signaled_row_ma_diff)
    have r: "rsi (out ! i) = ?rc ! i"
      unfolding row[OF i] using i len by (simp add: signaled_row_def Let_def col_at_def)
    have s: "sma_short (out ! i) = ?sc ! i"
      unfolding row[OF i] using i by (simp add: signaled_row_def Let_def col_at_def)
    have l: "sma_long (out ! i) = ?lc ! i"
      unfolding row[OF i] using i by (simp add: signaled_row_def Let_def col_at_def)
    have w1: "i < nat p \<longrightarrow> rsi (out ! i) = NaN"
      unfolding r using i rsi_warmup[of i "map Close df" "nat p"] by simp
    have w2: "Suc i < nat sw \<longrightarrow> sma_short (out ! i) = NaN"
      unfolding s using i by (simp add: rolling_mean_warmup)
    have w3: "Suc i < nat lw \<longrightarrow> sma_long (out ! i) = NaN"
      unfolding l using i by (simp add: rolling_mean_warmup)
    from row_rule[OF sg md] w1 w2 w3 show ?thesis by blast
  qed
  from main have "\<forall>i < length out.
        (signal (out ! i) = 1 \<longleftrightarrow>
           flt (rsi (out ! i)) (Fin 30) \<and> fgt (ma_diff (out ! i)) (Fin 0)) \<and>
        (signal (out ! i) = 0 \<longleftrightarrow>
           \<not> (flt (rsi (out ! i)) (Fin 30) \<and> fgt (ma_diff (out ! i)) (Fin 0))) \<and>
        (rsi (out ! i) = NaN \<or> sma_short (out ! i) = NaN \<or> sma_long (out ! i) = NaN
           \<longrightarrow> signal (out ! i) = 0) \<and>
        (i < nat p \<longrightarrow> rsi (out ! i) = NaN) \<and>
        (Suc i < nat sw \<longrightarrow> sma_short (out ! i) = NaN) \<and>
        (Suc i < nat lw \<longrightarrow> sma_long (out ! i) = NaN)"
    unfolding lout by blast
  with gs show ?thesis by blast
qed

theorem generate_signals_rule_witness:
  "generate_signals (Bars demo_bars) 1 1 3 = Inr demo_signaled \<and>
   flt (rsi (demo_signaled ! 2)) (Fin 30) \<and> fgt (ma_diff (demo_signaled ! 2)) (Fin 0) \<and>
   signal (demo_signaled ! 2) = 1 \<and>
   sma_long (demo_signaled ! 1) = NaN \<and> signal (demo_signaled ! 1) = 0 \<and>
   rsi (demo_signaled ! 0) = NaN \<and> signal (demo_signaled ! 0) = 0"
proof -
  have p1: "(0::int) < 1" and p2: "(0::int) \<le> 1" and p3: "(0::int) \<le> 3" by simp_all
  from generate_signals_rule[OF p1 p2 p3, of demo_bars]
  obtain out where g: "generate_signals (Bars demo_bars) 1 1 3 = Inr out"
    and r: "\<And>i. i < length out \<Longrightarrow>
              (signal (out ! i) = 1 \<longleftrightarrow>
                 flt (rsi (out ! i)) (Fin 30) \<and> fgt (ma_diff (out ! i)) (Fin 0)) \<and>
              (rsi (out ! i) = NaN \<or> sma_short (out ! i) = NaN \<or> sma_long (out ! i) = NaN
                 \<longrightarrow> signal (out ! i) = 0) \<and>
              (i < nat 1 \<longrightarrow> rsi (out ! i) = NaN) \<and>
              (Suc i < nat 3 \<longrightarrow> sma_long (out ! i) = NaN)"
    by blast
  from g have out: "out = demo_signaled" by (simp add: demo_signals)
  have len: "length demo_signaled = 4" by (simp add: demo_signaled_def)
  have b: "flt (rsi (demo_signaled ! 2)) (Fin 30)" "fgt (ma_diff (demo_signaled ! 2)) (Fin 0)"
    by (simp_all add: demo_signaled_def fgt_def)
  from r[of 2] b have s2: "signal (demo_signaled ! 2) = 1"
    unfolding out len by simp
  from r[of 1] have l1: "sma_long (demo_signaled ! 1) = NaN"
    unfolding out len by simp
  with r[of 1] have s1: "signal (demo_signaled ! 1) = 0"
    unfolding out len by simp
  from r[of 0] have r0: "rsi (demo_signaled ! 0) = NaN"
    unfolding out len by simp
  with r[of 0] have s0: "signal (demo_signaled ! 0) = 0"
    unfolding out len by simp
  from b s2 l1 s1 r0 s0 demo_signals show ?thesis by simp
qed

text \<open>
  Claim C4, as amended. For a positive period \<open>calculate_rsi\<close> returns a value for
  every bar and raises nothing. On a bar where the smoothed average loss is zero the
  RSI is 100 when the smoothed average gain is not zero, and NaN when the average gain
  is zero as well (or NaN).
\<close>

theorem rsi_at_zero_average_loss:
  assumes "0 < period"
  shows "\<exists>col. calculate_rsi series period = Inr col \<and> length col = length series \<and>
           (\<forall>i < length series.
              rsi_avg_loss series (nat period) ! i = Fin 0 \<longrightarrow>
              col ! i = (if rsi_avg_gain series (nat period) ! i = Fin 0
                            \<or> rsi_avg_gain series (nat period) ! i = NaN
                         then NaN else Fin 100))"
proof -
  let ?g = "rsi_avg_gain series (nat period)"
  let ?l = "rsi_avg_loss series (nat period)"
  have c: "calculate_rsi series period = Inr (map2 rsi_of ?g ?l)"
    using assms by (simp add: calculate_rsi_def)
  have "map2 rsi_of ?g ?l ! i =
      (if ?g ! i = Fin 0 \<or> ?g ! i = NaN then NaN else Fin 100)"
    if "i < length series" "?l ! i = Fin 0" for i
  proof -
    have "map2 rsi_of ?g ?l ! i = rsi_of (?g ! i) (Fin 0)"
      using that by simp
    then show ?thesis
      using rsi_of_zero_loss[of "?g ! i"] by (auto simp: rsi_of_zero_zero rsi_of_NaN_gain)
  qed
  with c show ?thesis by simp
qed

theorem rsi_at_zero_average_loss_witness:
  "length rising_closes = 3 \<and>
   rsi_avg_loss rising_closes (nat 2) ! 2 = Fin 0 \<and>
   rsi_avg_gain rising_closes (nat 2) ! 2 = Fin 1 \<and>
   (\<exists>col. calculate_rsi rising_closes 2 = Inr col \<and> col ! 2 = Fin 100)"
proof -
  have l: "rsi_avg_loss rising_closes (nat 2) ! 2 = Fin 0"
    by (simp add: rising_closes_def series_eval)
  have g: "rsi_avg_gain rising_closes (nat 2) ! 2 = Fin 1"
    by (simp add: rising_closes_def series_eval)
  have n: "length rising_closes = 3" by (simp add: rising_closes_def)
  have p: "(0::int) < 2" by simp
  from rsi_at_zero_average_loss[OF p, of rising_closes]
  obtain col where c: "calculate_rsi rising_closes 2 = Inr col"
    and r: "\<And>i. i < length rising_closes \<Longrightarrow>
              rsi_avg_loss rising_closes (nat 2) ! i = Fin 0 \<Longrightarrow>
              col ! i = (if rsi_avg_gain rising_closes (nat 2) ! i = Fin 0
                            \<or> rsi_avg_gain rising_closes (nat 2) ! i = NaN
                         then NaN else Fin 100)"
    by blast
  from r[of 2] l g n have "col ! 2 = Fin 100" by simp
  with c l g n show ?thesis by blast
qed

text \<open>
  Claim C4 as stated fails on a constant series: with the default period 14 and
  fifteen equal closes the average loss on the fifteenth bar is zero and the RSI is
  NaN, as on every bar.
\<close>

theorem flat_series_counterexample:
  "rsi_avg_loss flat_closes 14 ! 14 = Fin 0 \<and>
   calculate_rsi flat_closes 14 = Inr (replicate 15 NaN)"
proof -
  have fc: "flat_closes = replicate (Suc 14) (Fin 50)"
    by (simp add: flat_closes_def)
  have l: "rsi_avg_loss flat_closes 14 ! 14 = Fin 0"
    unfolding fc by (rule flat_series_rsi) simp_all
  have "map2 rsi_of (rsi_avg_gain flat_closes 14) (rsi_avg_loss flat_closes 14) = replicate 15 NaN"
  proof (rule nth_equalityI)
    show "length (map2 rsi_of (rsi_avg_gain flat_closes 14) (rsi_avg_loss flat_closes 14)) =
          length (replicate 15 NaN :: float64 list)"
      by (simp add: flat_closes_def)
  next
    fix i
    assume "i < length (map2 rsi_of (rsi_avg_gain flat_closes 14) (rsi_avg_loss flat_closes 14))"
    then have i: "i < 15" by (simp add: flat_closes_def)
    have "map2 rsi_of (rsi_avg_gain flat_closes 14) (rsi_avg_loss flat_closes 14) ! i = NaN"
    proof (cases "i < 14")
      case True
      then show ?thesis
        using rsi_warmup[of i flat_closes 14] by (simp add: flat_closes_def)
    next
      case False
      with i have "14 \<le> i" "i < Suc 14" by simp_all
      then show ?thesis
        unfolding fc by (intro flat_series_rsi) simp_all
    qed
    with i show "map2 rsi_of (rsi_avg_gain flat_closes 14) (rsi_avg_loss flat_closes 14) ! i =
        replicate 15 NaN ! i"
      by simp
  qed
  with l show ?thesis by (simp add: calculate_rsi_def)
qed

text \<open>
  Claim C5. When the dates of the frame increase strictly, every trade of the returned
  ledger closes an entry on an earlier bar, its exit date is after its entry date, and
  its shares are the capital held at its entry divided by its entry price.
\<close>

theorem trade_exit_after_entry_and_sizing:
  assumes bt: "backtest_signals df c r = Inr (trade_df, sm)"
      and sorted: "sorted_wrt (<) (map date df)"
      and k: "k < length trade_df"
  shows "(\<exists>i. closes df (trade_df ! k) i) \<and>
         (\<exists>d. tr_entry_date (trade_df ! k) = Some d \<and> d < tr_exit_date (trade_df ! k)) \<and>
         tr_shares (trade_df ! k) =
           fdiv (capital_before c trade_df k) (tr_entry_price (trade_df ! k))"
proof -
  let ?ts = "trades (bt_loop df c r)"
  have td: "trade_df = map scale_pnl_pct ?ts"
    using bt by (rule backtest_signals_Inr)
  have k': "k < length ?ts" using k td by simp
  have "list_all2 (closes df) ?ts (entries_before df c r (length df - 1))"
    by (rule trades_close_entries)
  with k' have cl: "closes df (?ts ! k) (entries_before df c r (length df - 1) ! k)"
    by (simp add: list_all2_conv_all_nth)
  then have c1: "\<exists>i. closes df (trade_df ! k) i"
    unfolding td using k' by auto
  have c2: "\<exists>d. tr_entry_date (trade_df ! k) = Some d \<and> d < tr_exit_date (trade_df ! k)"
    using closes_dates[OF cl sorted] unfolding td using k' by simp
  have "sizing_inv df c r (length df)" by (rule sizing_inv_all)
  with k' have "tr_shares (?ts ! k) = fdiv (capital_before c ?ts k) (tr_entry_price (?ts ! k))"
    by (simp add: sizing_inv_def Let_def bt_loop_def)
  then have c3: "tr_shares (trade_df ! k) =
           fdiv (capital_before c trade_df k) (tr_entry_price (trade_df ! k))"
    unfolding td using k' by simp
  from c1 c2 c3 show ?thesis by blast
qed

theorem trade_exit_after_entry_and_sizing_witness:
  "sorted_wrt (<) (map date demo_signaled) \<and>
   (\<exists>i. closes demo_signaled demo_trade i) \<and>
   (\<exists>d. tr_entry_date demo_trade = Some d \<and> d < tr_exit_date demo_trade) \<and>
   tr_shares demo_trade = fdiv (Fin 100000) (tr_entry_price demo_trade)"
proof -
  have s: "sorted_wrt (<) (map date demo_signaled)"
    by (simp add: demo_signaled_def)
  from trade_exit_after_entry_and_sizing[OF demo_backtest s, of 0] s show ?thesis
    by (simp add: capital_before_def)
qed

text \<open>
  Claim C6, as amended. In the returned summary \<open>total_trades\<close> is the length of the
  ledger; \<open>wins + losses = total_trades\<close> holds exactly when no trade has a NaN profit;
  \<open>win_rate\<close> is \<open>wins / total_trades\<close> for a non-empty ledger and 0 for an empty one;
  \<open>cumulative_return_pct\<close> is \<open>(final_capital / initial_capital - 1) * 100\<close>; and the
  ledger reports each \<open>pnl_pct\<close> multiplied by 100.
\<close>

theorem summary_reduction:
  assumes bt: "backtest_signals df c r = Inr (trade_df, sm)"
  shows "total_trades sm = length trade_df \<and>
         ((wins sm + losses sm = total_trades sm) = (\<forall>t \<in> set trade_df. tr_pnl t \<noteq> NaN)) \<and>
         (0 < total_trades sm \<longrightarrow>
            win_rate sm = Fin (real (wins sm) / real (total_trades sm))) \<and>
         (total_trades sm = 0 \<longrightarrow> win_rate sm = Fin 0) \<and>
         cumulative_return_pct sm =
           fmul (fsub (fdiv (capital (bt_loop df c r)) c) (Fin 1)) (Fin 100) \<and>
         map tr_pnl_pct trade_df =
           map (\<lambda>t. fmul (tr_pnl_pct t) (Fin 100)) (trades (bt_loop df c r))"
proof -
  have td: "trade_df = map scale_pnl_pct (trades (bt_loop df c r))"
    and sm: "sm = summarize trade_df (capital (bt_loop df c r)) c"
    using bt by (rule backtest_signals_Inr)+
  have c1: "total_trades sm = length trade_df"
    by (simp add: sm summarize_fields)
  have c2: "(wins sm + losses sm = total_trades sm) = (\<forall>t \<in> set trade_df. tr_pnl t \<noteq> NaN)"
    unfolding sm summarize_fields by (rule wins_losses_total_iff)
  have c4: "win_rate sm = Fin (real (wins sm) / real (total_trades sm))"
    if "0 < total_trades sm"
    using that unfolding sm summarize_fields by (simp add: summarize_win_rate)
  have c5: "win_rate sm = Fin 0" if "total_trades sm = 0"
    using that unfolding sm summarize_fields by (simp add: summarize_win_rate)
  have c6: "cumulative_return_pct sm =
           fmul (fsub (fdiv (capital (bt_loop df c r)) c) (Fin 1)) (Fin 100)"
    by (simp add: sm summarize_fields)
  have c7: "map tr_pnl_pct trade_df =
           map (\<lambda>t. fmul (tr_pnl_pct t) (Fin 100)) (trades (bt_loop df c r))"
    by (simp add: td)
  from c1 c2 c4 c5 c6 c7 show ?thesis by blast
qed

theorem summary_reduction_witness:
  "total_trades demo_summary = length [demo_trade] \<and>
   tr_pnl demo_trade \<noteq> NaN \<and>
   wins demo_summary + losses demo_summary = total_trades demo_summary \<and>
   0 < total_trades demo_summary \<and>
   win_rate demo_summary = Fin (real (wins demo_summary) / real (total_trades demo_summary)) \<and>
   cumulative_return_pct demo_summary =
     fmul (fsub (fdiv (capital (bt_loop demo_signaled (Fin 100000) (Fin 70))) (Fin 100000))
                (Fin 1)) (Fin 100) \<and>
   map tr_pnl_pct [demo_trade] =
     map (\<lambda>t. fmul (tr_pnl_pct t) (Fin 100))
         (trades (bt_loop demo_signaled (Fin 100000) (Fin 70)))"
proof -
  have pos: "0 < total_trades demo_summary" by (simp add: demo_summary_def)
  have nn: "tr_pnl demo_trade \<noteq> NaN" by (simp add: demo_trade_def)
  then have all: "\<forall>t \<in> set [demo_trade]. tr_pnl t \<noteq> NaN" by simp
  from summary_reduction[OF demo_backtest] pos nn all show ?thesis by blast
qed

text \<open>
  Claim C6 as stated fails when a profit is NaN. On \<open>zero_bars\<close> the position is
  entered at a close of zero, so the shares are infinite, and it is closed at a close of
  zero: the profit is NaN, which is neither greater than zero nor at most zero, and the
  one trade is counted neither as a win nor as a loss.
\<close>

theorem nan_profit_counterexample:
  "generate_signals (Bars zero_bars) 1 2 3 = Inr zero_signaled \<and>
   backtest_signals zero_signaled (Fin 100000) (Fin 70) =
     Inr ([zero_trade],
          \<lparr>total_trades = 1, wins = 0, losses = 0, win_rate = Fin 0,
            cumulative_return_pct = NaN\<rparr>)"
  by (simp add: zero_signals backtest_signals_def zero_loop summarize_def zero_trade_def
      scale_pnl_pct_def is_win_def is_loss_def fgt_def fle_def Let_def loop_eval
      zero_signaled_def upt_4 fge_def fsub_def inf_of_def)




text \<open>
  Claim C8. For valid parameters \<open>generate_signals\<close> returns a frame with exactly one
  row per input bar, in the input's order: the rows of the output, cut back to the
  input's columns, are the input.
\<close>

theorem generate_signals_same_rows:
  assumes "0 < p" "0 \<le> sw" "0 \<le> lw"
  shows "\<exists>out. generate_signals (Bars df) p sw lw = Inr out \<and> length out = length df \<and>
           map bar.truncate out = df"
  using assms
  by (simp add: generate_signals_Inr signaled_row_truncate o_def map_nth)

theorem generate_signals_same_rows_witness:
  "\<exists>out. generate_signals (Bars demo_bars) 14 20 50 = Inr out \<and> length out = length demo_bars \<and>
           map bar.truncate out = demo_bars"
  using generate_signals_same_rows[of 14 20 50 demo_bars] by simp

text \<open>
  Claim C9. A run of \<open>generate_signals\<close> leaves the caller's frame as it was and
  returns a frame whose rows are determined by the rows of the input and the parameters
  alone; so a second run on the same frame object, after the first, returns the same
  rows. A run of \<open>backtest_signals\<close> changes no frame, and a second run returns the
  same ledger and the same summary.
\<close>

theorem runs_repeat:
  assumes "r < next_id st"
  shows "frames (fst (generate_signals_obj st r p sw lw)) r = frames st r \<and>
         returned_frame (generate_signals_obj st r p sw lw) =
           (case generate_signals (frames st r) p sw lw of
              Inl e \<Rightarrow> Inl e
            | Inr out \<Rightarrow> Inr (SignaledBars out)) \<and>
         returned_frame (generate_signals_obj (fst (generate_signals_obj st r p sw lw)) r p sw lw) =
           returned_frame (generate_signals_obj st r p sw lw) \<and>
         fst (backtest_signals_obj st r c x) = st \<and>
         snd (backtest_signals_obj (fst (backtest_signals_obj st r c x)) r c x) =
           snd (backtest_signals_obj st r c x)"
proof -
  have keep: "frames (fst (generate_signals_obj st r p sw lw)) r = frames st r"
    using assms by (rule generate_signals_obj_keeps)
  have again: "returned_frame (generate_signals_obj (fst (generate_signals_obj st r p sw lw)) r p sw lw) =
           returned_frame (generate_signals_obj st r p sw lw)"
    unfolding generate_signals_obj_result keep ..
  have bt: "fst (backtest_signals_obj st r c x) = st"
    by (simp add: backtest_signals_obj_def)
  from keep again bt generate_signals_obj_result[of st r p sw lw] show ?thesis
    by simp
qed

theorem runs_repeat_witness:
  "frames (fst (generate_signals_obj demo_store 0 1 1 3)) 0 = Bars demo_bars \<and>
   returned_frame (generate_signals_obj demo_store 0 1 1 3) = Inr (SignaledBars demo_signaled) \<and>
   returned_frame (generate_signals_obj (fst (generate_signals_obj demo_store 0 1 1 3)) 0 1 1 3) =
     Inr (SignaledBars demo_signaled) \<and>
   snd (backtest_signals_obj (fst (generate_signals_obj demo_store 0 1 1 3)) 1
          (Fin 100000) (Fin 70)) = Inr ([demo_trade], demo_summary) \<and>
   snd (backtest_signals_obj
          (fst (backtest_signals_obj (fst (generate_signals_obj demo_store 0 1 1 3)) 1
                  (Fin 100000) (Fin 70))) 1 (Fin 100000) (Fin 70)) =
     Inr ([demo_trade], demo_summary)"
proof -
  define st1 where "st1 = fst (generate_signals_obj demo_store 0 1 1 3)"
  have h: "0 < next_id demo_store" by (simp add: demo_store_def)
  have h1: "1 < next_id st1" by (simp add: st1_def demo_store_signaled)
  have f0: "frames demo_store 0 = Bars demo_bars" by (simp add: demo_store_def)
  have bt: "snd (backtest_signals_obj st1 1 (Fin 100000) (Fin 70)) =
      Inr ([demo_trade], demo_summary)"
    by (simp add: st1_def demo_store_signaled backtest_signals_obj_def demo_backtest)
  from runs_repeat[OF h, of 1 1 3 "Fin 100000" "Fin 70"]
  have g: "frames st1 0 = Bars demo_bars"
      "returned_frame (generate_signals_obj demo_store 0 1 1 3) = Inr (SignaledBars demo_signaled)"
      "returned_frame (generate_signals_obj st1 0 1 1 3) = Inr (SignaledBars demo_signaled)"
    unfolding st1_def[symmetric] f0 by (simp_all add: demo_signals)
  from runs_repeat[OF h1, of 1 1 3 "Fin 100000" "Fin 70"] bt
  have "snd (backtest_signals_obj (fst (backtest_signals_obj st1 1 (Fin 100000) (Fin 70))) 1
          (Fin 100000) (Fin 70)) = Inr ([demo_trade], demo_summary)"
    by simp
  with g bt show ?thesis
    unfolding st1_def by simp
qed

text \<open>
  Claim C10. \<open>wins\<close> counts the trades with a profit greater than zero and
  \<open>losses\<close> those with a profit of at most zero, so every trade with a profit of
  exactly zero is a loss and not a win: the summary has at least as many losses as
  break-even trades, and wins and break-even trades together do not exceed the total.
\<close>

theorem break_even_counts_as_loss:
  assumes bt: "backtest_signals df c r = Inr (trade_df, sm)"
  shows "wins sm = length (filter (\<lambda>t. fgt (tr_pnl t) (Fin 0)) trade_df) \<and>
         losses sm = length (filter (\<lambda>t. fle (tr_pnl t) (Fin 0)) trade_df) \<and>
         (\<forall>t \<in> set trade_df. tr_pnl t = Fin 0 \<longrightarrow> is_loss t \<and> \<not> is_win t) \<and>
         length (filter (\<lambda>t. tr_pnl t = Fin 0) trade_df) \<le> losses sm \<and>
         wins sm + length (filter (\<lambda>t. tr_pnl t = Fin 0) trade_df) \<le> total_trades sm"
proof -
  have sm: "sm = summarize trade_df (capital (bt_loop df c r)) c"
    using bt by (rule backtest_signals_Inr)
  have w: "wins sm = length (filter is_win trade_df)"
    and l: "losses sm = length (filter is_loss trade_df)"
    and n: "total_trades sm = length trade_df"
    by (simp_all add: sm summarize_fields)
  have z: "tr_pnl t = Fin 0 \<longrightarrow> is_loss t \<and> \<not> is_win t" for t
    using zero_pnl_is_loss by blast
  have sub: "length (filter (\<lambda>t. tr_pnl t = Fin 0) ts) \<le> length (filter is_loss ts)" for ts
    by (induction ts) (auto simp: zero_pnl_is_loss)
  have sum: "length (filter is_win ts) + length (filter (\<lambda>t. tr_pnl t = Fin 0) ts) \<le> length ts"
    for ts
    by (induction ts) (auto simp: zero_pnl_is_loss)
  have "wins sm = length (filter (\<lambda>t. fgt (tr_pnl t) (Fin 0)) trade_df)"
    using w by (simp add: is_win_def[abs_def])
  moreover have "losses sm = length (filter (\<lambda>t. fle (tr_pnl t) (Fin 0)) trade_df)"
    using l by (simp add: is_loss_def[abs_def])
  ultimately show ?thesis
    using z sub[of trade_df] sum[of trade_df] w l n by simp
qed

theorem break_even_counts_as_loss_witness:
  "generate_signals (Bars even_bars) 1 1 3 = Inr even_signaled \<and>
   backtest_signals even_signaled (Fin 100000) (Fin 70) = Inr ([even_trade], even_summary) \<and>
   even_trade \<in> set [even_trade] \<and> tr_pnl even_trade = Fin 0 \<and>
   is_loss even_trade \<and> \<not> is_win even_trade \<and>
   wins even_summary = 0 \<and> losses even_summary = 1 \<and> win_rate even_summary = Fin 0"
proof -
  have p: "tr_pnl even_trade = Fin 0" by (simp add: even_trade_def)
  have "is_loss even_trade \<and> \<not> is_win even_trade"
    using break_even_counts_as_loss[OF even_backtest] p by simp
  then show ?thesis
    by (simp add: even_signals even_backtest p) (simp add: even_summary_def)
qed

end
